theory Spec2Isabelle
  imports Main "HOL-Library.Word"
begin

section \<open>JavaScript values and string primitives used by \<^verbatim>\<open>lib/trx.js\<close>\<close>

text \<open>
  The reporter options are plain JavaScript values. Two tests are applied to them: truthiness
  (\<^verbatim>\<open>a || b\<close>, \<^verbatim>\<open>if (a)\<close>) and strict equality with the boolean \<^verbatim>\<open>true\<close>
  (\<^verbatim>\<open>=== true\<close>).
\<close>

datatype jsval = JUndefined | JNull | JBool bool | JNum int | JStr string

fun truthy :: "jsval \<Rightarrow> bool" where
  "truthy JUndefined = False"
| "truthy JNull = False"
| "truthy (JBool b) = b"
| "truthy (JNum n) = (n \<noteq> 0)"
| "truthy (JStr s) = (s \<noteq> [])"

definition strict_eq_true :: "jsval \<Rightarrow> bool" where
  "strict_eq_true v = (v = JBool True)"

text \<open>
  A value that is either \<^verbatim>\<open>undefined\<close> or a string is an \<open>option\<close>; it is falsy when it is
  \<^verbatim>\<open>undefined\<close> or the empty string.
\<close>

fun truthy_str :: "string option \<Rightarrow> bool" where
  "truthy_str None = False"
| "truthy_str (Some s) = (s \<noteq> [])"

definition or_str :: "string option \<Rightarrow> string option \<Rightarrow> string option" where
  "or_str a b = (if truthy_str a then a else b)"

text \<open>\<^verbatim>\<open>s.indexOf(pat)\<close>: the index of the first occurrence of \<open>pat\<close>, or \<open>-1\<close>.\<close>

fun startsWith :: "string \<Rightarrow> string \<Rightarrow> bool" where
  "startsWith s [] = True"
| "startsWith [] (p # ps) = False"
| "startsWith (c # cs) (p # ps) = (c = p \<and> startsWith cs ps)"

fun first_index :: "string \<Rightarrow> string \<Rightarrow> nat option" where
  "first_index [] pat = (if pat = [] then Some 0 else None)"
| "first_index (c # cs) pat =
     (if startsWith (c # cs) pat then Some 0 else map_option Suc (first_index cs pat))"

definition indexOf :: "string \<Rightarrow> string \<Rightarrow> int" where
  "indexOf s pat = (case first_index s pat of None \<Rightarrow> - 1 | Some i \<Rightarrow> int i)"

text \<open>
  \<^verbatim>\<open>s.replace(pat, rep)\<close> with a string pattern replaces the first occurrence only. The
  replacement strings of this program (a hexadecimal string, the empty string, a blank)
  contain no \<^verbatim>\<open>$\<close>, so no replacement pattern is expanded.
\<close>

definition replace :: "string \<Rightarrow> string \<Rightarrow> string \<Rightarrow> string" where
  "replace s pat rep =
     (case first_index s pat of
        None \<Rightarrow> s
      | Some i \<Rightarrow> take i s @ rep @ drop (i + length pat) s)"

text \<open>\<^verbatim>\<open>s.substring(a, b)\<close>: negative arguments count as 0, and the two are swapped if \<open>a > b\<close>.\<close>

definition substring :: "string \<Rightarrow> int \<Rightarrow> int \<Rightarrow> string" where
  "substring s a b =
     (let a' = min (nat a) (length s); b' = min (nat b) (length s);
          lo = min a' b'; hi = max a' b'
      in take (hi - lo) (drop lo s))"

text \<open>\<^verbatim>\<open>s.split(sep)\<close> for a one-character separator; the result is never empty.\<close>

fun split_from :: "char \<Rightarrow> string \<Rightarrow> string \<Rightarrow> string list" where
  "split_from sep cur [] = [cur]"
| "split_from sep cur (c # cs) =
     (if c = sep then cur # split_from sep [] cs else split_from sep (cur @ [c]) cs)"

definition split :: "string \<Rightarrow> char \<Rightarrow> string list" where
  "split s sep = split_from sep [] s"

text \<open>Decimal rendering of a non-negative number, as a template literal prints it.\<close>

definition digit_char :: "nat \<Rightarrow> char" where
  "digit_char d = ''0123456789abcdef'' ! (d mod 16)"

fun dec :: "nat \<Rightarrow> string" where
  "dec n = (if n < 10 then [digit_char n] else dec (n div 10) @ [digit_char (n mod 10)])"

declare dec.simps [simp del]

definition padStart :: "nat \<Rightarrow> string \<Rightarrow> string" where
  "padStart k s = replicate (k - length s) CHR ''0'' @ s"

text \<open>\<^verbatim>\<open>buffer.toString('hex')\<close>: two lowercase hexadecimal digits for each byte.\<close>

definition hex_byte :: "8 word \<Rightarrow> string" where
  "hex_byte b = [digit_char (unat b div 16), digit_char (unat b mod 16)]"

definition toString_hex :: "8 word list \<Rightarrow> string" where
  "toString_hex bs = concat (map hex_byte bs)"

text \<open>
  \<^verbatim>\<open>crypto.randomBytes(n)\<close>: the random source is the function giving the \<open>i\<close>-th byte that
  the generator delivers.
\<close>

definition randomBytes :: "(nat \<Rightarrow> 8 word) \<Rightarrow> nat \<Rightarrow> 8 word list" where
  "randomBytes rnd n = map rnd [0..<n]"

section \<open>Reporter options and \<^verbatim>\<open>getFilename\<close>\<close>

text \<open>
  The option \<^verbatim>\<open>output\<close>, a string when it is given, is the field \<open>output_opt\<close>. The two
  flags can hold any value.
\<close>

record reporterOptions =
  output_opt :: "string option"
  excludePending :: jsval
  warnExcludedPending :: jsval

text \<open>\<^verbatim>\<open>options.reporterOptions || {}\<close>: every option of the empty object is \<^verbatim>\<open>undefined\<close>.\<close>

definition no_options :: reporterOptions where
  "no_options = \<lparr>output_opt = None, excludePending = JUndefined, warnExcludedPending = JUndefined\<rparr>"

definition reporterOptions_or_empty :: "reporterOptions option \<Rightarrow> reporterOptions" where
  "reporterOptions_or_empty opt = (case opt of None \<Rightarrow> no_options | Some ro \<Rightarrow> ro)"

text \<open>
  \<^verbatim>\<open>getFilename(reporterOptions)\<close>. Its two inputs from the process are the environment
  variable \<^verbatim>\<open>MOCHA_REPORTER_FILE\<close> and the random source.
\<close>

definition getFilename :: "(nat \<Rightarrow> 8 word) \<Rightarrow> string option \<Rightarrow> reporterOptions \<Rightarrow> string option" where
  "getFilename rnd MOCHA_REPORTER_FILE ro =
     (let filePath = or_str (output_opt ro) MOCHA_REPORTER_FILE
      in case filePath of
           None \<Rightarrow> filePath
         | Some p \<Rightarrow>
             if truthy_str filePath \<and> indexOf p ''[hash]'' \<noteq> - 1
             then Some (replace p ''[hash]'' (toString_hex (randomBytes rnd 16)))
             else filePath)"

section \<open>Dates\<close>

text \<open>
  A \<^verbatim>\<open>Date\<close> is kept as its UTC calendar fields (\<open>month\<close> counts from 1).
  \<^verbatim>\<open>toISOString\<close> prints \<^verbatim>\<open>YYYY-MM-DDTHH:mm:ss.sssZ\<close>, and a year beyond 9999 with a sign and
  six digits.
\<close>

record utc_time =
  year :: nat
  month :: nat
  day :: nat
  hours :: nat
  minutes :: nat
  seconds :: nat
  milliseconds :: nat

definition year_str :: "nat \<Rightarrow> string" where
  "year_str y = (if y \<le> 9999 then padStart 4 (dec y) else ''+'' @ padStart 6 (dec y))"

definition date_str :: "utc_time \<Rightarrow> string" where
  "date_str d = year_str (year d) @ ''-'' @ padStart 2 (dec (month d)) @ ''-'' @ padStart 2 (dec (day d))"

definition time_str :: "utc_time \<Rightarrow> string" where
  "time_str d =
     padStart 2 (dec (hours d)) @ '':'' @ padStart 2 (dec (minutes d)) @ '':'' @ padStart 2 (dec (seconds d))"

definition toISOString :: "utc_time \<Rightarrow> string" where
  "toISOString d = date_str d @ ''T'' @ time_str d @ ''.'' @ padStart 3 (dec (milliseconds d)) @ ''Z''"

section \<open>Tests, suites and the listeners of the runner's events\<close>

text \<open>
  A test object of the runner, with the properties the reporter reads or writes. \<open>pending\<close> is
  what \<^verbatim>\<open>test.isPending()\<close> returns; \<open>state\<close> is \<^verbatim>\<open>undefined\<close> until the runner or the
  reporter sets it. Test objects are mutated in place and the set \<open>tests\<close> holds references, so
  the objects live in a store indexed by their identity.
\<close>

record error_obj =
  message :: string
  stack :: string

record test =
  title :: string
  state :: "string option"
  pending :: bool
  err :: "error_obj option"
  attachments :: "string list option"
  test_start :: "utc_time option"
  test_end :: "utc_time option"

text \<open>
  A suite has an identity, the string its \<^verbatim>\<open>fullTitle()\<close> returns, its own tests and its
  child suites. \<^verbatim>\<open>suite.eachTest(fn)\<close> visits the suite's own tests, then each child suite
  in the same way.
\<close>

datatype suite = Suite (sid: nat) (fullTitle: string) (suite_tests: "nat list") (suites: "suite list")

fun eachTest :: "suite \<Rightarrow> nat list" where
  "eachTest (Suite i ft ts ss) = ts @ concat (map eachTest ss)"

text \<open>
  The object a \<^verbatim>\<open>fail\<close> event carries: a hook or a test (\<open>rtype\<close> is its \<^verbatim>\<open>type\<close>), with
  the error the base reporter stored on it; that listener runs first.
\<close>

record runnable =
  rtype :: string
  rtitle :: string
  parent :: suite
  rerr :: error_obj

record reporter_state =
  tests :: "nat list"
  failedHook :: "runnable option"
  objs :: "nat \<Rightarrow> test"

text \<open>\<^verbatim>\<open>tests.add(test)\<close> on a \<^verbatim>\<open>Set\<close>: insertion order, and adding a member changes nothing.\<close>

definition set_add :: "nat list \<Rightarrow> nat \<Rightarrow> nat list" where
  "set_add s x = (if x \<in> set s then s else s @ [x])"

definition on_test :: "utc_time \<Rightarrow> nat \<Rightarrow> reporter_state \<Rightarrow> reporter_state" where
  "on_test now t st = st\<lparr>objs := (objs st)(t := (objs st t)\<lparr>test_start := Some now\<rparr>)\<rparr>"

definition on_test_end :: "utc_time \<Rightarrow> nat \<Rightarrow> reporter_state \<Rightarrow> reporter_state" where
  "on_test_end now t st =
     st\<lparr>objs := (objs st)(t := (objs st t)\<lparr>test_end := Some now\<rparr>), tests := set_add (tests st) t\<rparr>"

definition on_fail :: "runnable \<Rightarrow> reporter_state \<Rightarrow> reporter_state" where
  "on_fail failed st = (if rtype failed = ''hook'' then st\<lparr>failedHook := Some failed\<rparr> else st)"

definition dquote :: string where
  "dquote = [CHR 0x22]"

definition not_executed_message :: "runnable \<Rightarrow> string" where
  "not_executed_message fh =
     ''Not executed due to '' @ rtitle fh @ '' on '' @ dquote @ fullTitle (parent fh) @ dquote"

text \<open>The callback given to \<^verbatim>\<open>suite.eachTest\<close> in the \<^verbatim>\<open>suite end\<close> listener.\<close>

definition mark_not_executed :: "runnable \<Rightarrow> nat \<Rightarrow> reporter_state \<Rightarrow> reporter_state" where
  "mark_not_executed fh t st =
     (let test = objs st t
      in if pending test \<or> \<not> truthy_str (state test)
         then
           let test1 = test\<lparr>err := Some \<lparr>message = not_executed_message fh, stack = stack (rerr fh)\<rparr>\<rparr>;
               test2 = (if \<not> truthy_str (state test1) then test1\<lparr>state := Some ''failed''\<rparr> else test1)
           in st\<lparr>objs := (objs st)(t := test2), tests := set_add (tests st) t\<rparr>
         else st)"

text \<open>\<^verbatim>\<open>failedHook.parent === suite\<close> compares the identities of the two suite objects.\<close>

definition on_suite_end :: "suite \<Rightarrow> reporter_state \<Rightarrow> reporter_state" where
  "on_suite_end suite st =
     (case failedHook st of
        None \<Rightarrow> st
      | Some fh \<Rightarrow>
          if sid (parent fh) = sid suite
          then (fold (mark_not_executed fh) (eachTest suite) st)\<lparr>failedHook := None\<rparr>
          else st)"

section \<open>The host: Node modules and the collaborators of the reporter\<close>

text \<open>
  Calls of the \<^verbatim>\<open>fs\<close> module. Both \<^verbatim>\<open>mkdirSync\<close> calls of the reporter pass
  \<^verbatim>\<open>{ recursive: true }\<close>, kept as the flag of \<open>MkdirSync\<close>; \<^verbatim>\<open>writeFileSync\<close> truncates an
  existing file.
\<close>

datatype fs_call =
    MkdirSync string bool
  | CopyFileSync string string
  | WriteFileSync string string

text \<open>
  The result entry that \<^verbatim>\<open>testToTrx\<close> returns: the three properties the reporter reads and
  writes, the outcome, and everything else in \<open>rest\<close>.
\<close>

record resultFile =
  path :: string

record 'r result =
  executionId :: "string option"
  relativeResultsDirectory :: "string option"
  resultFiles :: "resultFile list option"
  outcome :: string
  rest :: 'r

record run_times =
  creation :: string
  queuing :: string
  start :: string
  finish :: string

text \<open>The \<^verbatim>\<open>TestRun\<close> object of \<^verbatim>\<open>node-trx\<close>; \<^verbatim>\<open>addResult\<close> appends to \<open>results\<close>.\<close>

record 'r run =
  name :: string
  runUser :: string
  settings_name :: string
  times :: run_times
  results :: "'r result list"

definition addResult :: "'r result \<Rightarrow> 'r run \<Rightarrow> 'r run" where
  "addResult r run = run\<lparr>results := results run @ [r]\<rparr>"

text \<open>
  What the reporter takes from outside \<^verbatim>\<open>lib/trx.js\<close>: the user and host names, the working
  directory, the environment variable, the random source, the identifiers that successive
  \<^verbatim>\<open>uuid.v4()\<close> calls return, the \<^verbatim>\<open>path\<close> module, the file system, \<^verbatim>\<open>testToTrx\<close> and
  the serializer \<^verbatim>\<open>run.toXml()\<close>. The file system is seen through \<open>fs_throws\<close>: given the
  calls made so far and a new call, the rendering of the error the call throws, if it throws.
\<close>

record 'r host =
  userName :: string
  computerName :: string
  cwd :: string
  MOCHA_REPORTER_FILE :: "string option"
  rnd :: "nat \<Rightarrow> 8 word"
  uuid_v4 :: "nat \<Rightarrow> string"
  path_sep :: char
  path_join :: "string list \<Rightarrow> string"
  path_dirname :: "string \<Rightarrow> string"
  fs_throws :: "fs_call list \<Rightarrow> fs_call \<Rightarrow> string option"
  testToTrx :: "test \<Rightarrow> string \<Rightarrow> string \<Rightarrow> reporterOptions \<Rightarrow> 'r result"
  toXml :: "'r run \<Rightarrow> string"

text \<open>\<^verbatim>\<open>self.stats\<close>, with the two timestamps the listener reads.\<close>

record stats =
  stats_start :: "utc_time option"
  stats_end :: "utc_time option"

text \<open>
  The effects of the \<^verbatim>\<open>end\<close> listener: the file-system calls made, the chunks written to
  standard output, the \<^verbatim>\<open>console.warn\<close> lines, the number of \<^verbatim>\<open>uuid.v4()\<close> and
  \<^verbatim>\<open>run.toXml()\<close> calls, and \<^verbatim>\<open>runner.testResults\<close>.
\<close>

record world =
  fs_calls :: "fs_call list"
  stdout :: "string list"
  console_warn :: "string list"
  uuid_calls :: nat
  toXml_calls :: nat
  runner_testResults :: "(stats \<times> test list) option"

datatype exn = TypeError string | FsError string

definition stdout_write :: "string \<Rightarrow> world \<Rightarrow> world" where
  "stdout_write s w = w\<lparr>stdout := stdout w @ [s]\<rparr>"

definition fs_do :: "'r host \<Rightarrow> fs_call \<Rightarrow> world \<Rightarrow> string option \<times> world" where
  "fs_do h c w = (fs_throws h (fs_calls w) c, w\<lparr>fs_calls := fs_calls w @ [c]\<rparr>)"

definition crlf :: string where
  "crlf = [CHR 0x0D, CHR 0x0A]"

section \<open>The \<^verbatim>\<open>end\<close> listener\<close>

text \<open>\<^verbatim>\<open>a || b\<close> where \<open>b\<close> is a string.\<close>

fun or_string :: "string option \<Rightarrow> string \<Rightarrow> string" where
  "or_string None b = b"
| "or_string (Some a) b = (if a \<noteq> [] then a else b)"

text \<open>The two lines written in the \<^verbatim>\<open>catch\<close> blocks; \<open>e\<close> is the rendering of the caught error.\<close>

definition mkdir_error_line :: "string \<Rightarrow> string \<Rightarrow> string" where
  "mkdir_error_line attachmentPath e =
     ''Error creating directory for attachments '' @ dquote @ attachmentPath @ dquote @ '': '' @ e @ crlf"

definition copy_error_line :: "string \<Rightarrow> string \<Rightarrow> string \<Rightarrow> string" where
  "copy_error_line a target e =
     ''Error copying attachment from '' @ dquote @ a @ dquote @ '' to '' @ dquote @ target @ dquote
       @ '': '' @ dquote @ e @ dquote @ crlf"

text \<open>The two progress lines.\<close>

definition mkdir_line :: "string \<Rightarrow> string" where
  "mkdir_line attachmentPath = ''Creating directory for attachments '' @ dquote @ attachmentPath @ dquote @ crlf"

definition copy_line :: "string \<Rightarrow> string \<Rightarrow> string" where
  "copy_line attachmentName attachmentPath =
     ''Copy attachment '' @ dquote @ attachmentName @ dquote @ '' to '' @ dquote @ attachmentPath @ dquote @ crlf"

text \<open>The callback of \<^verbatim>\<open>test.attachments.map\<close>.\<close>

definition copy_attachment :: "'r host \<Rightarrow> string \<Rightarrow> string \<Rightarrow> world \<Rightarrow> resultFile \<times> world" where
  "copy_attachment h attachmentPath a w =
     (let attachmentName = last (split a (path_sep h));
          target = path_join h [attachmentPath, attachmentName];
          w1 = stdout_write (copy_line attachmentName attachmentPath) w;
          w2 = (case fs_do h (CopyFileSync a target) w1 of
                  (None, w') \<Rightarrow> w'
                | (Some e, w') \<Rightarrow> stdout_write (copy_error_line a target e) w')
      in (\<lparr>path = attachmentName\<rparr>, w2))"

text \<open>\<^verbatim>\<open>test.attachments.map(callback)\<close>: the callback runs on the attachments in order.\<close>

fun copy_attachments :: "'r host \<Rightarrow> string \<Rightarrow> string list \<Rightarrow> world \<Rightarrow> resultFile list \<times> world" where
  "copy_attachments h attachmentPath [] w = ([], w)"
| "copy_attachments h attachmentPath (a # as) w =
     (let (file, w1) = copy_attachment h attachmentPath a w;
          (files, w2) = copy_attachments h attachmentPath as w1
      in (file # files, w2))"

text \<open>The body of \<^verbatim>\<open>if (filename && test.attachments?.length)\<close>.\<close>

definition move_attachments ::
  "'r host \<Rightarrow> string \<Rightarrow> string list \<Rightarrow> 'r result \<Rightarrow> world \<Rightarrow> 'r result \<times> world" where
  "move_attachments h filename as result w =
     (let (eid, w0) = (if truthy_str (executionId result) then (or_string (executionId result) [], w)
                       else (uuid_v4 h (uuid_calls w), w\<lparr>uuid_calls := Suc (uuid_calls w)\<rparr>));
          result1 = result\<lparr>executionId := Some eid\<rparr>;
          rrd = or_string (relativeResultsDirectory result1) eid;
          result2 = result1\<lparr>relativeResultsDirectory := Some rrd\<rparr>;
          attachmentPath = path_join h [or_string (Some (cwd h)) [], replace filename ''.trx'' [], ''In'', rrd];
          w1 = stdout_write (mkdir_line attachmentPath) w0;
          w2 = (case fs_do h (MkdirSync attachmentPath True) w1 of
                  (None, w') \<Rightarrow> w'
                | (Some e, w') \<Rightarrow> stdout_write (mkdir_error_line attachmentPath e) w');
          (files, w3) = copy_attachments h attachmentPath as w2
      in (result2\<lparr>resultFiles := Some ((case resultFiles result2 of None \<Rightarrow> [] | Some fs \<Rightarrow> fs) @ files)\<rparr>, w3))"

text \<open>
  The guard \<^verbatim>\<open>filename && test.attachments?.length\<close>: the file name is a non-empty string and
  the test has a non-empty list of attachments.
\<close>

fun relocation :: "string option \<Rightarrow> string list option \<Rightarrow> (string \<times> string list) option" where
  "relocation (Some f) (Some as) = (if f \<noteq> [] \<and> length as \<noteq> 0 then Some (f, as) else None)"
| "relocation (Some f) None = None"
| "relocation None as = None"

text \<open>
  The callback of \<^verbatim>\<open>testResults.tests.forEach\<close>. It works on the report under construction,
  \<open>excludedPendingCount\<close> and the effects so far.
\<close>

definition report_test ::
  "'r host \<Rightarrow> reporterOptions \<Rightarrow> string option \<Rightarrow> test \<Rightarrow> 'r run \<times> nat \<times> world \<Rightarrow> 'r run \<times> nat \<times> world" where
  "report_test h ro filename test acc =
     (case acc of (run, excludedPendingCount, w) \<Rightarrow>
        if pending test \<and> strict_eq_true (excludePending ro)
        then (run, excludedPendingCount + 1, w)
        else
          let result = testToTrx h test (computerName h) (cwd h) ro;
              (result', w') = (case relocation filename (attachments test) of
                                 None \<Rightarrow> (result, w)
                               | Some (f, as) \<Rightarrow> move_attachments h f as result w)
          in (addResult result' run, excludedPendingCount, w'))"

definition warning_text :: "nat \<Rightarrow> string" where
  "warning_text excludedPendingCount =
     ''##[warning]'' @
     (if excludedPendingCount = 1 then ''Excluded 1 test because it is marked as Pending.''
      else ''Excluded '' @ dec excludedPendingCount @ '' tests because they are marked as Pending.'')"

definition warn_excluded :: "reporterOptions \<Rightarrow> nat \<Rightarrow> world \<Rightarrow> world" where
  "warn_excluded ro excludedPendingCount w =
     (if strict_eq_true (warnExcludedPending ro) \<and> excludedPendingCount > 0
      then w\<lparr>console_warn := console_warn w @ [warning_text excludedPendingCount]\<rparr>
      else w)"

text \<open>
  The last statement of the listener. The two file-system calls are outside any
  \<^verbatim>\<open>try\<close>: an error of either leaves the listener.
\<close>

definition write_report :: "'r host \<Rightarrow> string option \<Rightarrow> 'r run \<Rightarrow> world \<Rightarrow> exn option \<times> world" where
  "write_report h filename run w =
     (case filename of
        Some f \<Rightarrow>
          if f \<noteq> [] then
            (case fs_do h (MkdirSync (path_dirname h f) True) w of
               (Some e, w1) \<Rightarrow> (Some (FsError e), w1)
             | (None, w1) \<Rightarrow>
                 let w2 = w1\<lparr>toXml_calls := Suc (toXml_calls w1)\<rparr>
                 in (case fs_do h (WriteFileSync f (toXml h run)) w2 of
                       (Some e, w3) \<Rightarrow> (Some (FsError e), w3)
                     | (None, w3) \<Rightarrow> (None, w3)))
          else (None, stdout_write (toXml h run) (w\<lparr>toXml_calls := Suc (toXml_calls w)\<rparr>))
      | None \<Rightarrow> (None, stdout_write (toXml h run) (w\<lparr>toXml_calls := Suc (toXml_calls w)\<rparr>)))"

definition testRunName :: "'r host \<Rightarrow> string \<Rightarrow> string" where
  "testRunName h now =
     userName h @ ''@'' @ computerName h @ '' '' @ replace (substring now 0 (indexOf now ''.'')) ''T'' '' ''"

definition new_TestRun :: "'r host \<Rightarrow> string \<Rightarrow> string \<Rightarrow> string \<Rightarrow> 'r run" where
  "new_TestRun h now s f =
     \<lparr>name = testRunName h now, runUser = userName h, settings_name = ''default'',
      times = \<lparr>creation = now, queuing = now, start = s, finish = f\<rparr>, results = []\<rparr>"

text \<open>
  The part of the listener after the \<^verbatim>\<open>TestRun\<close> is built and cut the report is
  written: the options, the file name, the loop over the tests and the warning.
\<close>

definition collect_results ::
  "'r host \<Rightarrow> reporterOptions option \<Rightarrow> test list \<Rightarrow> 'r run \<Rightarrow> world \<Rightarrow> string option \<times> 'r run \<times> nat \<times> world" where
  "collect_results h options_reporterOptions ts run w =
     (let reporterOptions = reporterOptions_or_empty options_reporterOptions;
          filename = getFilename (rnd h) (MOCHA_REPORTER_FILE h) reporterOptions;
          (run', excludedPendingCount, w') = fold (report_test h reporterOptions filename) ts (run, 0, w)
      in (filename, run', excludedPendingCount, warn_excluded reporterOptions excludedPendingCount w'))"

text \<open>
  The \<^verbatim>\<open>end\<close> listener. \<open>now\<close> is the \<^verbatim>\<open>Date\<close> it creates. Reading
  \<^verbatim>\<open>toISOString\<close> from a timestamp of the statistics that is \<^verbatim>\<open>undefined\<close> throws a
  \<^verbatim>\<open>TypeError\<close>. The result is the exception that left the listener, if any, and the effects.
\<close>

definition on_end ::
  "'r host \<Rightarrow> reporterOptions option \<Rightarrow> stats \<Rightarrow> utc_time \<Rightarrow> reporter_state \<Rightarrow> world \<Rightarrow> exn option \<times> world" where
  "on_end h options_reporterOptions self_stats now_date st w =
     (let ts = map (objs st) (tests st);
          w0 = w\<lparr>runner_testResults := Some (self_stats, ts)\<rparr>;
          now = toISOString now_date
      in case stats_start self_stats of
           None \<Rightarrow> (Some (TypeError ''start''), w0)
         | Some s \<Rightarrow>
             (case stats_end self_stats of
                None \<Rightarrow> (Some (TypeError ''end''), w0)
              | Some f \<Rightarrow>
                  let run = new_TestRun h now (toISOString s) (toISOString f);
                      (filename, run', excludedPendingCount, w1) = collect_results h options_reporterOptions ts run w0
                  in write_report h filename run' w1))"

section \<open>The POSIX \<^verbatim>\<open>path\<close> module and a host to run the listeners on\<close>

text \<open>
  \<^verbatim>\<open>path.join\<close> and \<^verbatim>\<open>path.dirname\<close> of Node on POSIX. \<^verbatim>\<open>join\<close> drops empty arguments, joins
  the others with a slash and normalizes: empty and \<^verbatim>\<open>.\<close> segments disappear, \<^verbatim>\<open>..\<close> removes
  the segment cut it, or stays when the path is relative and nothing is left to remove.
\<close>

fun join_with :: "string \<Rightarrow> string list \<Rightarrow> string" where
  "join_with sep [] = []"
| "join_with sep [x] = x"
| "join_with sep (x # y # ys) = x @ sep @ join_with sep (y # ys)"

fun normalize_segments :: "bool \<Rightarrow> string list \<Rightarrow> string list \<Rightarrow> string list" where
  "normalize_segments allowAboveRoot res [] = res"
| "normalize_segments allowAboveRoot res (seg # segs) =
     (if seg = [] \<or> seg = ''.'' then normalize_segments allowAboveRoot res segs
      else if seg = ''..'' then
        (if res \<noteq> [] \<and> last res \<noteq> ''..'' then normalize_segments allowAboveRoot (butlast res) segs
         else if allowAboveRoot then normalize_segments allowAboveRoot (res @ [''..'']) segs
         else normalize_segments allowAboveRoot res segs)
      else normalize_segments allowAboveRoot (res @ [seg]) segs)"

definition posix_normalize :: "string \<Rightarrow> string" where
  "posix_normalize p =
     (case p of
        [] \<Rightarrow> ''.''
      | c # cs \<Rightarrow>
          let isAbsolute = (c = CHR ''/'');
              trailingSeparator = (last p = CHR ''/'');
              body = join_with ''/'' (normalize_segments (\<not> isAbsolute) [] (split p CHR ''/''))
          in if body = [] then (if isAbsolute then ''/'' else if trailingSeparator then ''./'' else ''.'')
             else (if isAbsolute then ''/'' else []) @ body @ (if trailingSeparator then ''/'' else []))"

definition posix_join :: "string list \<Rightarrow> string" where
  "posix_join args =
     (let parts = filter (\<lambda>a. a \<noteq> []) args
      in if parts = [] then ''.'' else posix_normalize (join_with ''/'' parts))"

text \<open>
  \<^verbatim>\<open>dirname\<close> ignores trailing slashes, then cuts at the last slash that is not the first
  character of the path.
\<close>

definition posix_dirname :: "string \<Rightarrow> string" where
  "posix_dirname p =
     (case p of
        [] \<Rightarrow> ''.''
      | c # cs \<Rightarrow>
          let hasRoot = (c = CHR ''/'');
              body = rev (dropWhile (\<lambda>x. x = CHR ''/'') (rev cs));
              cut = rev (dropWhile (\<lambda>x. x \<noteq> CHR ''/'') (rev body))
          in if cut = [] then (if hasRoot then ''/'' else ''.'')
             else if hasRoot \<and> length cut = 1 then ''//''
             else c # butlast cut)"

text \<open>
  A host for running the model: user \<^verbatim>\<open>alice\<close> on \<^verbatim>\<open>build01\<close> in \<^verbatim>\<open>/work\<close>, POSIX paths, a file
  system on which no call throws, a random source that always delivers the byte \<^verbatim>\<open>0xab\<close>,
  identifiers \<^verbatim>\<open>uuid-0\<close>, \<^verbatim>\<open>uuid-1\<close>, ... The file \<^verbatim>\<open>lib/test-to-trx.js\<close> and the serializer of
  \<^verbatim>\<open>node-trx\<close> are outside the source modelled here; the host has stand-ins for them, which
  keep the state and the title of the test, and the name of the run and the outcomes.
\<close>

definition sample_testToTrx :: "test \<Rightarrow> string \<Rightarrow> string \<Rightarrow> reporterOptions \<Rightarrow> string result" where
  "sample_testToTrx t host dir ro =
     \<lparr>executionId = None, relativeResultsDirectory = None, resultFiles = None,
      outcome = (case state t of None \<Rightarrow> ''NotExecuted'' | Some s \<Rightarrow> s), rest = title t\<rparr>"

definition sample_toXml :: "string run \<Rightarrow> string" where
  "sample_toXml r = ''<TestRun name='' @ name r @ ''>'' @ concat (map (\<lambda>e. ''<'' @ rest e @ '':'' @ outcome e @ ''>'') (results r))"

definition sample_host :: "string host" where
  "sample_host =
     \<lparr>userName = ''alice'', computerName = ''build01'', cwd = ''/work'', MOCHA_REPORTER_FILE = None,
      rnd = (\<lambda>i. 0xAB), uuid_v4 = (\<lambda>k. ''uuid-'' @ dec k), path_sep = CHR ''/'',
      path_join = posix_join, path_dirname = posix_dirname, fs_throws = (\<lambda>calls c. None),
      testToTrx = sample_testToTrx, toXml = sample_toXml\<rparr>"

text \<open>
  A file system that refuses to create any directory but \<^verbatim>\<open>results\<close> and to copy
  \<^verbatim>\<open>shots/b.png\<close>.
\<close>

fun refusing :: "fs_call list \<Rightarrow> fs_call \<Rightarrow> string option" where
  "refusing calls (MkdirSync p r) = (if p = ''results'' then None else Some ''Error: EACCES'')"
| "refusing calls (CopyFileSync a t) = (if a = ''shots/b.png'' then Some ''Error: ENOENT'' else None)"
| "refusing calls (WriteFileSync f x) = None"

text \<open>A file system on which only the creation of the directory \<^verbatim>\<open>results\<close> is refused.\<close>

fun no_results_dir :: "fs_call list \<Rightarrow> fs_call \<Rightarrow> string option" where
  "no_results_dir calls (MkdirSync p r) = (if p = ''results'' then Some ''Error: EACCES'' else None)"
| "no_results_dir calls (CopyFileSync a t) = None"
| "no_results_dir calls (WriteFileSync f x) = None"

text \<open>
  A file system that knows about directories: writing a file throws when an earlier call
  created a directory at the path of the file, seen from the working directory \<^verbatim>\<open>/work\<close>, or
  below it. No other call throws.
\<close>

fun made_dir_at :: "string \<Rightarrow> fs_call \<Rightarrow> bool" where
  "made_dir_at f (MkdirSync p r) = (p = f \<or> startsWith p (f @ ''/''))"
| "made_dir_at f (CopyFileSync a t) = False"
| "made_dir_at f (WriteFileSync g x) = False"

fun dir_aware :: "fs_call list \<Rightarrow> fs_call \<Rightarrow> string option" where
  "dir_aware calls (MkdirSync p r) = None"
| "dir_aware calls (CopyFileSync a t) = None"
| "dir_aware calls (WriteFileSync f x) =
     (if list_ex (made_dir_at (posix_join [''/work'', f])) calls then Some ''Error: EISDIR'' else None)"

definition stats_without_times :: stats where
  "stats_without_times = \<lparr>stats_start = None, stats_end = None\<rparr>"

definition sample_world :: world where
  "sample_world =
     \<lparr>fs_calls = [], stdout = [], console_warn = [], uuid_calls = 0, toXml_calls = 0,
      runner_testResults = None\<rparr>"

definition sample_test :: "string \<Rightarrow> string option \<Rightarrow> bool \<Rightarrow> string list option \<Rightarrow> test" where
  "sample_test ttl st pend atts =
     \<lparr>title = ttl, state = st, pending = pend, err = None, attachments = atts,
      test_start = None, test_end = None\<rparr>"

definition sample_time :: utc_time where
  "sample_time = \<lparr>year = 2024, month = 3, day = 9, hours = 7, minutes = 5, seconds = 42, milliseconds = 17\<rparr>"

definition sample_stats :: stats where
  "sample_stats = \<lparr>stats_start = Some sample_time, stats_end = Some sample_time\<rparr>"

text \<open>
  Three tests: \<^verbatim>\<open>A\<close> passed, \<^verbatim>\<open>P\<close> is pending, \<^verbatim>\<open>B\<close> failed and has two attachments.
\<close>

definition sample_B :: test where
  "sample_B = sample_test ''B'' (Some ''failed'') False (Some [''shots/a.png'', ''shots/b.png''])"

definition sample_tests :: "test list" where
  "sample_tests =
     [sample_test ''A'' (Some ''passed'') False None,
      sample_test ''P'' (Some ''pending'') True None,
      sample_test ''B'' (Some ''failed'') False (Some [''shots/a.png'', ''shots/b.png''])]"

text \<open>The reporter after the three tests ended: they are the objects 0, 1 and 2.\<close>

definition sample_state :: reporter_state where
  "sample_state =
     \<lparr>tests = [0, 1, 2], failedHook = None,
      objs = (\<lambda>i. if i = 0 then sample_test ''A'' (Some ''passed'') False None
                   else if i = 1 then sample_test ''P'' (Some ''pending'') True None
                   else sample_test ''B'' (Some ''failed'') False (Some [''shots/a.png'', ''shots/b.png'']))\<rparr>"

text \<open>
  A suite \<^verbatim>\<open>Suite X\<close> whose \<^verbatim>\<open>before each\<close> hook failed. Its test 0 passed before the
  failure, test 1 was skipped by the runner before the failure and has the state
  \<^verbatim>\<open>pending\<close>, test 2 never ran, and test 3, in a child suite, is pending and was never
  reached. Only test 0 and test 1 have been added to the set.
\<close>

definition hooked_suite :: suite where
  "hooked_suite = Suite 7 ''Suite X'' [0, 1, 2] [Suite 8 ''Suite X inner'' [3] []]"

definition hooked_hook :: runnable where
  "hooked_hook =
     \<lparr>rtype = ''hook'', rtitle = ''before each hook'', parent = hooked_suite,
      rerr = \<lparr>message = ''boom'', stack = ''Error: boom at hook.js:3''\<rparr>\<rparr>"

definition hooked_state :: reporter_state where
  "hooked_state =
     \<lparr>tests = [0, 1], failedHook = Some hooked_hook,
      objs = (\<lambda>i. if i = 0 then sample_test ''T0'' (Some ''passed'') False None
                   else if i = 1 then sample_test ''T1'' (Some ''pending'') True None
                   else if i = 2 then sample_test ''T2'' None False None
                   else sample_test ''T3'' None True None)\<rparr>"

definition sample_options :: "string option \<Rightarrow> jsval \<Rightarrow> jsval \<Rightarrow> reporterOptions" where
  "sample_options out excl warn = \<lparr>output_opt = out, excludePending = excl, warnExcludedPending = warn\<rparr>"

definition sample_run :: "string run" where
  "sample_run = new_TestRun sample_host (toISOString sample_time) (toISOString sample_time) (toISOString sample_time)"

section \<open>Properties stated about the listeners\<close>

text \<open>
  Every call that threw is logged: going through the file-system calls in order, a call on
  which the file system throws has its error line on standard output. The relocation of
  attachments makes no \<open>WriteFileSync\<close> call.
\<close>

fun error_logged :: "string list \<Rightarrow> fs_call \<Rightarrow> string \<Rightarrow> bool" where
  "error_logged out (MkdirSync p r) e = (mkdir_error_line p e \<in> set out)"
| "error_logged out (CopyFileSync a t) e = (copy_error_line a t e \<in> set out)"
| "error_logged out (WriteFileSync f x) e = False"

fun errors_logged_from :: "'r host \<Rightarrow> string list \<Rightarrow> fs_call list \<Rightarrow> fs_call list \<Rightarrow> bool" where
  "errors_logged_from h out earlier [] = True"
| "errors_logged_from h out earlier (c # cs) =
     ((case fs_throws h earlier c of None \<Rightarrow> True | Some e \<Rightarrow> error_logged out c e)
      \<and> errors_logged_from h out (earlier @ [c]) cs)"

definition errors_logged :: "'r host \<Rightarrow> world \<Rightarrow> bool" where
  "errors_logged h w = errors_logged_from h (stdout w) [] (fs_calls w)"

text \<open>
  A result entry comes from a test when it has the outcome and the other content that
  \<^verbatim>\<open>testToTrx\<close> gives for that test.
\<close>

definition entry_of :: "'r host \<Rightarrow> reporterOptions \<Rightarrow> test \<Rightarrow> 'r result \<Rightarrow> bool" where
  "entry_of h ro t r =
     (outcome r = outcome (testToTrx h t (computerName h) (cwd h) ro)
      \<and> rest r = rest (testToTrx h t (computerName h) (cwd h) ro))"

text \<open>
  The execution identifier, the relative results directory and the attachment directory that
  the listener computes for a result entry \<open>r\<close> when \<open>k\<close> identifiers have been generated
  before.
\<close>

definition execution_id :: "'r host \<Rightarrow> 'r result \<Rightarrow> nat \<Rightarrow> string" where
  "execution_id h r k = or_string (executionId r) (uuid_v4 h k)"

definition results_directory :: "'r host \<Rightarrow> 'r result \<Rightarrow> nat \<Rightarrow> string" where
  "results_directory h r k = or_string (relativeResultsDirectory r) (execution_id h r k)"

definition attachment_dir :: "'r host \<Rightarrow> string \<Rightarrow> string \<Rightarrow> string" where
  "attachment_dir h filename rrd = path_join h [cwd h, replace filename ''.trx'' [], ''In'', rrd]"

text \<open>
  The specification's wording for the directory, \<^verbatim>\<open><output-path-without-extension>\<close>: the path
  without the extension of its last segment, that is without the part from the last dot of
  that segment on, when the dot is not the segment's first character.
\<close>

definition spec_without_extension :: "string \<Rightarrow> string" where
  "spec_without_extension p =
     (let segment = rev (takeWhile (\<lambda>c. c \<noteq> CHR ''/'') (rev p));
          ext = rev (takeWhile (\<lambda>c. c \<noteq> CHR ''.'') (rev segment))
      in if CHR ''.'' \<in> set segment \<and> length ext + 1 < length segment
         then take (length p - (length ext + 1)) p
         else p)"

text \<open>
  What the \<^verbatim>\<open>suite end\<close> listener makes of a test object when the hook \<open>fh\<close> failed: a test
  that is pending or has no state gets the error naming the hook and the hook's suite, with
  the stack of the hook's error, and the state \<^verbatim>\<open>failed\<close> unless it has a state already.
\<close>

definition not_executed :: "runnable \<Rightarrow> test \<Rightarrow> test" where
  "not_executed fh x =
     (if pending x \<or> \<not> truthy_str (state x)
      then x\<lparr>err := Some \<lparr>message = ''Not executed due to '' @ rtitle fh @ '' on '' @ dquote
                                        @ fullTitle (parent fh) @ dquote,
                            stack = stack (rerr fh)\<rparr>,
             state := (if truthy_str (state x) then state x else Some ''failed'')\<rparr>
      else x)"

text \<open>The base name of an attachment, as the callback computes it.\<close>

definition base_name :: "'r host \<Rightarrow> string \<Rightarrow> string" where
  "base_name h a = last (split a (path_sep h))"

text \<open>A test that the loop skips: it is pending and \<^verbatim>\<open>excludePending === true\<close>.\<close>

abbreviation excluded :: "reporterOptions \<Rightarrow> test \<Rightarrow> bool" where
  "excluded ro t \<equiv> pending t \<and> excludePending ro = JBool True"

section \<open>Strings: first occurrences, hexadecimal and decimal digits\<close>

lemma startsWith_iff: "startsWith s p \<longleftrightarrow> (\<exists>b. s = p @ b)"
  by (induction s p rule: startsWith.induct) auto

lemma first_index_first:
  "(\<And>a' b'. a @ pat @ b = a' @ pat @ b' \<Longrightarrow> length a \<le> length a') \<Longrightarrow>
   first_index (a @ pat @ b) pat = Some (length a)"
proof (induction a)
  case Nil
  show ?case
  proof (cases "pat @ b")
    case Nil
    then show ?thesis by simp
  next
    case (Cons c cs)
    have "startsWith (pat @ b) pat" by (simp add: startsWith_iff)
    with Cons show ?thesis by simp
  qed
next
  case (Cons x xs)
  have no: "\<not> startsWith (x # xs @ pat @ b) pat"
  proof
    assume "startsWith (x # xs @ pat @ b) pat"
    then obtain b' where "(x # xs) @ pat @ b = [] @ pat @ b'"
      by (auto simp: startsWith_iff)
    from Cons.prems [OF this] show False by simp
  qed
  have "first_index (xs @ pat @ b) pat = Some (length xs)"
  proof (rule Cons.IH)
    fix a' b'
    assume "xs @ pat @ b = a' @ pat @ b'"
    then have "(x # xs) @ pat @ b = (x # a') @ pat @ b'" by simp
    from Cons.prems [OF this] show "length xs \<le> length a'" by simp
  qed
  with no show ?case by simp
qed

lemma first_index_SomeD:
  "first_index s pat = Some i \<Longrightarrow> \<exists>b. s = take i s @ pat @ b"
proof (induction s arbitrary: i)
  case Nil
  then show ?case by (auto split: if_splits)
next
  case (Cons c cs)
  show ?case
  proof (cases "startsWith (c # cs) pat")
    case True
    with Cons.prems have "i = 0" by simp
    with True show ?thesis by (auto simp: startsWith_iff)
  next
    case False
    with Cons.prems obtain j where j: "first_index cs pat = Some j" "i = Suc j"
      by auto
    from Cons.IH [OF j(1)] obtain b where "cs = take j cs @ pat @ b" ..
    then have "c # cs = take (Suc j) (c # cs) @ pat @ b" by simp
    with j(2) show ?thesis by blast
  qed
qed

lemma first_index_None:
  "first_index s pat = None \<Longrightarrow> s \<noteq> a @ pat @ b"
proof (induction s arbitrary: a)
  case Nil
  then show ?case by (auto split: if_splits)
next
  case (Cons c cs)
  from Cons.prems have ns: "\<not> startsWith (c # cs) pat" and n: "first_index cs pat = None"
    by (auto split: if_splits)
  show ?case
  proof (cases a)
    case Nil
    with ns show ?thesis by (auto simp: startsWith_iff)
  next
    case (Cons x xs)
    with Cons.IH [OF n, of xs] show ?thesis by auto
  qed
qed

lemma indexOf_contains: "indexOf s pat \<noteq> - 1 \<longleftrightarrow> (\<exists>a b. s = a @ pat @ b)"
proof (cases "first_index s pat")
  case None
  then show ?thesis using first_index_None [OF None] by (auto simp: indexOf_def)
next
  case (Some i)
  then show ?thesis using first_index_SomeD [OF Some] by (auto simp: indexOf_def)
qed

lemma replace_first:
  "(\<And>a' b'. a @ pat @ b = a' @ pat @ b' \<Longrightarrow> length a \<le> length a') \<Longrightarrow>
   replace (a @ pat @ b) pat rep = a @ rep @ b"
  by (simp add: replace_def first_index_first)

lemma replace_absent: "\<not> (\<exists>a b. s = a @ pat @ b) \<Longrightarrow> replace s pat rep = s"
  using first_index_SomeD [of s pat] by (cases "first_index s pat") (auto simp: replace_def)

lemma digit_char_hex: "digit_char d \<in> set ''0123456789abcdef''"
  unfolding digit_char_def by (rule nth_mem) simp

lemma length_toString_hex: "length (toString_hex bs) = 2 * length bs"
  by (induction bs) (simp_all add: toString_hex_def hex_byte_def)

lemma set_toString_hex: "set (toString_hex bs) \<subseteq> set ''0123456789abcdef''"
proof (induction bs)
  case Nil
  then show ?case by (simp add: toString_hex_def)
next
  case (Cons b bs)
  have "set (hex_byte b) \<subseteq> set ''0123456789abcdef''"
    using digit_char_hex [of "unat b div 16"] digit_char_hex [of "unat b mod 16"]
    by (simp add: hex_byte_def)
  with Cons show ?case by (simp add: toString_hex_def)
qed

lemma length_randomBytes: "length (randomBytes r n) = n"
  by (simp add: randomBytes_def)


lemma first_index_char:
  "c \<notin> set xs \<Longrightarrow> first_index (xs @ c # ys) [c] = Some (length xs)"
  by (induction xs) auto

lemma digit_char_dec: "d < 10 \<Longrightarrow> digit_char d \<in> set ''0123456789''"
proof -
  assume d: "d < 10"
  then have "digit_char d = ''0123456789'' ! d"
    using nth_take [of d 10 "''0123456789abcdef''"] by (simp add: digit_char_def)
  moreover have "''0123456789'' ! d \<in> set ''0123456789''"
    by (rule nth_mem) (use d in simp)
  ultimately show ?thesis by simp
qed

lemma set_dec: "set (dec n) \<subseteq> set ''0123456789''"
proof (induction n rule: dec.induct)
  case (1 n)
  show ?case
  proof (cases "n < 10")
    case True
    then show ?thesis using digit_char_dec [of n] by (simp add: dec.simps [of n])
  next
    case False
    have "digit_char (n mod 10) \<in> set ''0123456789''" by (rule digit_char_dec) simp
    with False 1 show ?thesis by (simp add: dec.simps [of n])
  qed
qed

lemma notin_padStart: "c \<notin> set ''0123456789'' \<Longrightarrow> c \<notin> set (padStart k (dec n))"
proof -
  assume c: "c \<notin> set ''0123456789''"
  then have "c \<noteq> CHR ''0''" by simp
  moreover from c set_dec [of n] have "c \<notin> set (dec n)" by blast
  ultimately show ?thesis by (simp add: padStart_def)
qed

lemma notin_date_str:
  "c \<notin> set ''0123456789'' \<Longrightarrow> c \<noteq> CHR ''-'' \<Longrightarrow> c \<noteq> CHR ''+'' \<Longrightarrow> c \<notin> set (date_str d)"
  using notin_padStart [of c] by (simp add: date_str_def year_str_def)

lemma notin_time_str:
  "c \<notin> set ''0123456789'' \<Longrightarrow> c \<noteq> CHR '':'' \<Longrightarrow> c \<notin> set (time_str d)"
  using notin_padStart [of c] by (simp add: time_str_def)

lemma substring_prefix: "substring (xs @ ys) 0 (int (length xs)) = xs"
  by (simp add: substring_def Let_def)

lemma seconds_of_iso:
  "replace (substring (toISOString d) 0 (indexOf (toISOString d) ''.'')) ''T'' '' ''
     = date_str d @ '' '' @ time_str d"
proof -
  let ?pre = "date_str d @ ''T'' @ time_str d"
  let ?post = "padStart 3 (dec (milliseconds d)) @ ''Z''"
  have iso: "toISOString d = ?pre @ CHR ''.'' # ?post"
    by (simp add: toISOString_def)
  have nodot: "CHR ''.'' \<notin> set ?pre"
    by (simp add: notin_date_str notin_time_str)
  have noT: "CHR ''T'' \<notin> set (date_str d)"
    by (simp add: notin_date_str)
  have "first_index (toISOString d) ''.'' = Some (length ?pre)"
    unfolding iso by (rule first_index_char [OF nodot])
  then have "substring (toISOString d) 0 (indexOf (toISOString d) ''.'') = ?pre"
    unfolding indexOf_def using substring_prefix [of ?pre "CHR ''.'' # ?post"] iso by simp
  moreover have "replace (date_str d @ CHR ''T'' # time_str d) ''T'' '' '' = date_str d @ '' '' @ time_str d"
    using first_index_char [OF noT, of "time_str d"] by (simp add: replace_def)
  ultimately show ?thesis by simp
qed

lemma length_dec_less: "n < 10 ^ k \<Longrightarrow> 0 < k \<Longrightarrow> length (dec n) \<le> k"
proof (induction n arbitrary: k rule: dec.induct)
  case (1 n)
  show ?case
  proof (cases "n < 10")
    case True
    with 1 show ?thesis by (simp add: dec.simps [of n])
  next
    case False
    with "1.prems" obtain k' where k: "k = Suc k'" "0 < k'"
      by (cases k; cases "k - 1") auto
    with "1.prems" have "n div 10 < 10 ^ k'" by (simp add: less_mult_imp_div_less mult.commute)
    with 1 False k have "length (dec (n div 10)) \<le> k'" by simp
    with False k show ?thesis by (simp add: dec.simps [of n])
  qed
qed

lemma length_padStart: "length s \<le> k \<Longrightarrow> length (padStart k s) = k"
  by (simp add: padStart_def)

lemma first_index_least:
  "first_index s pat = Some i \<Longrightarrow> s = a' @ pat @ b' \<Longrightarrow> i \<le> length a'"
proof (induction s arbitrary: i a')
  case Nil
  then show ?case by simp
next
  case (Cons c cs)
  show ?case
  proof (cases "startsWith (c # cs) pat")
    case True
    with Cons.prems(1) have "i = 0" by simp
    then show ?thesis by simp
  next
    case False
    with Cons.prems(1) obtain j where j: "first_index cs pat = Some j" "i = Suc j"
      by auto
    from False Cons.prems(2) obtain a'' where a'': "a' = c # a''" "cs = a'' @ pat @ b'"
      by (cases a') (auto simp: startsWith_iff)
    from Cons.IH [OF j(1) a''(2)] j(2) a''(1) show ?thesis by simp
  qed
qed

lemma first_occurrence:
  "first_index (a @ pat @ b) pat = Some (length a) \<Longrightarrow>
   \<forall>a' b'. a @ pat @ b = a' @ pat @ b' \<longrightarrow> length a \<le> length a'"
  using first_index_least by blast

lemma getFilename_truthy:
  "or_str (output_opt ro) env = Some p \<Longrightarrow> p \<noteq> [] \<Longrightarrow>
   getFilename r env ro =
     (if \<exists>a b. p = a @ ''[hash]'' @ b then Some (replace p ''[hash]'' (toString_hex (randomBytes r 16)))
      else Some p)"
  using indexOf_contains [of p "''[hash]''"] by (simp add: getFilename_def Let_def)

lemma getFilename_falsy:
  "\<not> truthy_str (or_str (output_opt ro) env) \<Longrightarrow> getFilename r env ro = or_str (output_opt ro) env"
  by (cases "or_str (output_opt ro) env") (simp_all add: getFilename_def Let_def)

lemma write_report_stdout:
  "\<not> truthy_str fn \<Longrightarrow>
   write_report h fn run0 w = (None, w\<lparr>toXml_calls := Suc (toXml_calls w), stdout := stdout w @ [toXml h run0]\<rparr>)"
  by (cases fn) (simp_all add: write_report_def stdout_write_def)

section \<open>Resolution of the output path\<close>

text \<open>
  Claim C3. The \<^verbatim>\<open>output\<close> option, when it is a non-empty string, decides the file name
  whatever the environment variable \<^verbatim>\<open>MOCHA_REPORTER_FILE\<close> holds; otherwise a non-empty
  environment variable is resolved exactly as the option would be. A path without the token
  \<^verbatim>\<open>[hash]\<close> is returned as it is; in a path with the token, the (first) occurrence is
  replaced by the hexadecimal rendering of 16 random bytes, which has 32 characters, all of
  them among \<^verbatim>\<open>0123456789abcdef\<close>. With neither the option nor the variable set, no
  file name is resolved and the serialized report is written to standard output.
\<close>

theorem getFilename_resolution:
  "(truthy_str (output_opt ro) \<longrightarrow> getFilename r env ro = getFilename r env' ro)
   \<and> (\<not> truthy_str (output_opt ro) \<and> truthy_str env
        \<longrightarrow> getFilename r env ro = getFilename r None (ro\<lparr>output_opt := env\<rparr>))
   \<and> (output_opt ro = Some p \<and> p \<noteq> [] \<and> \<not> (\<exists>a b. p = a @ ''[hash]'' @ b)
        \<longrightarrow> getFilename r None ro = Some p)
   \<and> (output_opt ro = Some (a @ ''[hash]'' @ b)
        \<and> (\<forall>a' b'. a @ ''[hash]'' @ b = a' @ ''[hash]'' @ b' \<longrightarrow> length a \<le> length a')
        \<longrightarrow> getFilename r None ro = Some (a @ toString_hex (randomBytes r 16) @ b))
   \<and> length (toString_hex (randomBytes r 16)) = 32
   \<and> set (toString_hex (randomBytes r 16)) \<subseteq> set ''0123456789abcdef''
   \<and> (\<not> truthy_str (output_opt ro) \<and> \<not> truthy_str env
        \<longrightarrow> \<not> truthy_str (getFilename r env ro)
            \<and> write_report h (getFilename r env ro) run0 w
                = (None, w\<lparr>toXml_calls := Suc (toXml_calls w), stdout := stdout w @ [toXml h run0]\<rparr>))"
proof (intro conjI impI)
  assume "truthy_str (output_opt ro)"
  then have "or_str (output_opt ro) env = or_str (output_opt ro) env'"
    by (simp add: or_str_def)
  then show "getFilename r env ro = getFilename r env' ro"
    by (simp add: getFilename_def)
next
  assume "\<not> truthy_str (output_opt ro) \<and> truthy_str env"
  then have "or_str (output_opt ro) env = or_str env None"
    by (simp add: or_str_def)
  then show "getFilename r env ro = getFilename r None (ro\<lparr>output_opt := env\<rparr>)"
    by (simp add: getFilename_def)
next
  assume "output_opt ro = Some p \<and> p \<noteq> [] \<and> \<not> (\<exists>a b. p = a @ ''[hash]'' @ b)"
  then show "getFilename r None ro = Some p"
    using getFilename_truthy [of ro None p r] by (simp add: or_str_def)
next
  assume h: "output_opt ro = Some (a @ ''[hash]'' @ b)
     \<and> (\<forall>a' b'. a @ ''[hash]'' @ b = a' @ ''[hash]'' @ b' \<longrightarrow> length a \<le> length a')"
  then have "replace (a @ ''[hash]'' @ b) ''[hash]'' (toString_hex (randomBytes r 16))
               = a @ toString_hex (randomBytes r 16) @ b"
    by (intro replace_first) blast
  moreover have "\<exists>a' b'. a @ ''[hash]'' @ b = a' @ ''[hash]'' @ b'" by blast
  ultimately show "getFilename r None ro = Some (a @ toString_hex (randomBytes r 16) @ b)"
    using h getFilename_truthy [of ro None "a @ ''[hash]'' @ b" r] by (simp add: or_str_def)
next
  show "length (toString_hex (randomBytes r 16)) = 32"
    by (simp add: length_toString_hex length_randomBytes)
next
  show "set (toString_hex (randomBytes r 16)) \<subseteq> set ''0123456789abcdef''"
    by (rule set_toString_hex)
next
  assume "\<not> truthy_str (output_opt ro) \<and> \<not> truthy_str env"
  then have f: "\<not> truthy_str (or_str (output_opt ro) env)" by (simp add: or_str_def)
  then show "\<not> truthy_str (getFilename r env ro)" by (simp add: getFilename_falsy)
  from f have "\<not> truthy_str (getFilename r env ro)" by (simp add: getFilename_falsy)
  then show "write_report h (getFilename r env ro) run0 w
                = (None, w\<lparr>toXml_calls := Suc (toXml_calls w), stdout := stdout w @ [toXml h run0]\<rparr>)"
    by (rule write_report_stdout)
qed

text \<open>
  The option \<^verbatim>\<open>out/[hash].trx\<close> wins over the variable \<^verbatim>\<open>env.trx\<close>; the variable alone is
  used as it is; with neither, the report goes to standard output without an exception.
\<close>

theorem getFilename_resolution_witness:
  "getFilename (\<lambda>i. 0xAB) (Some ''env.trx'')
       \<lparr>output_opt = Some ''out/[hash].trx'', excludePending = JUndefined, warnExcludedPending = JUndefined\<rparr>
     = Some ''out/abababababababababababababababab.trx''
   \<and> getFilename (\<lambda>i. 0xAB) (Some ''env.trx'') no_options = Some ''env.trx''
   \<and> fst (write_report sample_host (getFilename (\<lambda>i. 0xAB) None no_options) sample_run sample_world) = None"
proof -
  let ?ro = "\<lparr>output_opt = Some ''out/[hash].trx'', excludePending = JUndefined, warnExcludedPending = JUndefined\<rparr>"
  have m: "\<forall>a' b'. ''out/'' @ ''[hash]'' @ ''.trx'' = a' @ ''[hash]'' @ b' \<longrightarrow> length ''out/'' \<le> length a'"
    by (rule first_occurrence) simp
  have n: "\<not> (\<exists>a b. ''env.trx'' = a @ ''[hash]'' @ b)"
    using indexOf_contains [of "''env.trx''" "''[hash]''"] by (simp add: indexOf_def)
  have hx: "toString_hex (randomBytes (\<lambda>i. 0xAB) 16) = ''abababababababababababababababab''"
    by (simp add: toString_hex_def randomBytes_def hex_byte_def digit_char_def upt_rec [of _ "numeral _"])
  from getFilename_resolution [of ?ro "\<lambda>i. 0xAB" "Some ''env.trx''" None "''out/[hash].trx''" "''out/''" "''.trx''"
      sample_host sample_run sample_world] m hx
  have 1: "getFilename (\<lambda>i. 0xAB) (Some ''env.trx'') ?ro = Some ''out/abababababababababababababababab.trx''"
    by simp
  from getFilename_resolution [of no_options "\<lambda>i. 0xAB" "Some ''env.trx''" None "''env.trx''" "[]" "[]"
      sample_host sample_run sample_world]
    getFilename_resolution [of "no_options\<lparr>output_opt := Some ''env.trx''\<rparr>" "\<lambda>i. 0xAB" None None "''env.trx''" "[]" "[]"
      sample_host sample_run sample_world] n
  have 2: "getFilename (\<lambda>i. 0xAB) (Some ''env.trx'') no_options = Some ''env.trx''"
    by (simp add: no_options_def)
  from getFilename_resolution [of no_options "\<lambda>i. 0xAB" None None "[]" "[]" "[]"
      sample_host sample_run sample_world]
  have 3: "fst (write_report sample_host (getFilename (\<lambda>i. 0xAB) None no_options) sample_run sample_world) = None"
    by (simp add: no_options_def)
  from 1 2 3 show ?thesis by simp
qed

section \<open>The relocation of attachments\<close>

lemma copy_attachment_eq:
  "copy_attachment h ap a w =
     (\<lparr>path = base_name h a\<rparr>,
      (case fs_throws h (fs_calls w) (CopyFileSync a (path_join h [ap, base_name h a])) of
         None \<Rightarrow> w\<lparr>stdout := stdout w @ [copy_line (base_name h a) ap],
                   fs_calls := fs_calls w @ [CopyFileSync a (path_join h [ap, base_name h a])]\<rparr>
       | Some e \<Rightarrow> w\<lparr>stdout := stdout w @ [copy_line (base_name h a) ap,
                                            copy_error_line a (path_join h [ap, base_name h a]) e],
                     fs_calls := fs_calls w @ [CopyFileSync a (path_join h [ap, base_name h a])]\<rparr>))"
  by (simp add: copy_attachment_def base_name_def fs_do_def stdout_write_def Let_def split: option.split)

lemma copy_attachments_files:
  "fst (copy_attachments h ap as w) = map (\<lambda>a. \<lparr>path = base_name h a\<rparr>) as"
  by (induction as arbitrary: w) (simp_all add: copy_attachment_eq split_beta)

lemma copy_attachments_calls:
  "fs_calls (snd (copy_attachments h ap as w)) =
     fs_calls w @ map (\<lambda>a. CopyFileSync a (path_join h [ap, base_name h a])) as"
  by (induction as arbitrary: w) (simp_all add: copy_attachment_eq split_beta split: option.split)

lemma copy_attachments_keeps:
  "console_warn (snd (copy_attachments h ap as w)) = console_warn w"
  "uuid_calls (snd (copy_attachments h ap as w)) = uuid_calls w"
  "toXml_calls (snd (copy_attachments h ap as w)) = toXml_calls w"
  "runner_testResults (snd (copy_attachments h ap as w)) = runner_testResults w"
  by (induction as arbitrary: w) (simp_all add: copy_attachment_eq split_beta split: option.split)

lemma errors_logged_from_append:
  "errors_logged_from h out earlier (cs @ [c]) =
     (errors_logged_from h out earlier cs
      \<and> (case fs_throws h (earlier @ cs) c of None \<Rightarrow> True | Some e \<Rightarrow> error_logged out c e))"
  by (induction cs arbitrary: earlier) auto

lemma error_logged_mono: "error_logged out c e \<Longrightarrow> set out \<subseteq> set out' \<Longrightarrow> error_logged out' c e"
  by (cases c) auto

lemma errors_logged_from_mono:
  "errors_logged_from h out earlier cs \<Longrightarrow> set out \<subseteq> set out' \<Longrightarrow> errors_logged_from h out' earlier cs"
  by (induction cs arbitrary: earlier) (auto split: option.splits intro: error_logged_mono)

lemma errors_logged_stdout:
  "errors_logged h w \<Longrightarrow> errors_logged h (w\<lparr>stdout := stdout w @ ls\<rparr>)"
  unfolding errors_logged_def
  using errors_logged_from_mono [of h "stdout w" "[]" "fs_calls w" "stdout w @ ls"] by simp

lemma errors_logged_copy_attachment:
  assumes "errors_logged h w"
  shows "errors_logged h (snd (copy_attachment h ap a w))"
proof (cases "fs_throws h (fs_calls w) (CopyFileSync a (path_join h [ap, base_name h a]))")
  case None
  from errors_logged_stdout [OF assms, of "[copy_line (base_name h a) ap]"] None show ?thesis
    by (simp add: copy_attachment_eq errors_logged_def errors_logged_from_append)
next
  case (Some e)
  from errors_logged_stdout [OF assms,
      of "[copy_line (base_name h a) ap, copy_error_line a (path_join h [ap, base_name h a]) e]"] Some
  show ?thesis
    by (simp add: copy_attachment_eq errors_logged_def errors_logged_from_append)
qed

lemma errors_logged_copy:
  "errors_logged h w \<Longrightarrow> errors_logged h (snd (copy_attachments h ap as w))"
proof (induction as arbitrary: w)
  case Nil
  then show ?case by simp
next
  case (Cons a as)
  from Cons.IH [OF errors_logged_copy_attachment [OF Cons.prems]] show ?case
    by (simp add: split_beta)
qed


lemma or_string_truthy:
  "(if truthy_str x then or_string x [] else b) = or_string x b"
  by (cases x) auto

lemma move_attachments_eq:
  "move_attachments h f as r w =
     (let eid = or_string (executionId r) (uuid_v4 h (uuid_calls w));
          rrd = or_string (relativeResultsDirectory r) eid;
          ap = path_join h [cwd h, replace f ''.trx'' [], ''In'', rrd];
          w0 = (if truthy_str (executionId r) then w else w\<lparr>uuid_calls := Suc (uuid_calls w)\<rparr>);
          w2 = (case fs_throws h (fs_calls w) (MkdirSync ap True) of
                  None \<Rightarrow> w0\<lparr>stdout := stdout w @ [mkdir_line ap],
                             fs_calls := fs_calls w @ [MkdirSync ap True]\<rparr>
                | Some e \<Rightarrow> w0\<lparr>fs_calls := fs_calls w @ [MkdirSync ap True],
                               stdout := stdout w @ [mkdir_line ap, mkdir_error_line ap e]\<rparr>)
      in (r\<lparr>executionId := Some eid, relativeResultsDirectory := Some rrd,
            resultFiles := Some ((case resultFiles r of None \<Rightarrow> [] | Some fs \<Rightarrow> fs)
                                   @ map (\<lambda>a. \<lparr>path = base_name h a\<rparr>) as)\<rparr>,
          snd (copy_attachments h ap as w2)))"
proof -
  have c: "or_string (Some s) [] = s" for s by simp
  show ?thesis
  proof (cases "truthy_str (executionId r)")
    case True
    then have x: "or_string (executionId r) b = or_string (executionId r) []" for b
      by (cases "executionId r") auto
    from True show ?thesis
      by (simp add: move_attachments_def c x [of "uuid_v4 h (uuid_calls w)"] Let_def split_beta
            fs_do_def stdout_write_def copy_attachments_files
          del: or_string.simps split: option.split)
  next
    case False
    then have x: "or_string (executionId r) b = b" for b
      by (cases "executionId r") auto
    from False show ?thesis
      by (simp add: move_attachments_def c x Let_def split_beta fs_do_def stdout_write_def
            copy_attachments_files
          del: or_string.simps split: option.split)
  qed
qed

lemma move_attachments_result:
  "fst (move_attachments h f as r w) =
     r\<lparr>executionId := Some (or_string (executionId r) (uuid_v4 h (uuid_calls w))),
       relativeResultsDirectory :=
         Some (or_string (relativeResultsDirectory r) (or_string (executionId r) (uuid_v4 h (uuid_calls w)))),
       resultFiles := Some ((case resultFiles r of None \<Rightarrow> [] | Some fs \<Rightarrow> fs)
                              @ map (\<lambda>a. \<lparr>path = base_name h a\<rparr>) as)\<rparr>"
  by (simp add: move_attachments_eq Let_def)

lemma move_attachments_calls:
  "fs_calls (snd (move_attachments h f as r w)) =
     fs_calls w
     @ MkdirSync (path_join h [cwd h, replace f ''.trx'' [], ''In'',
          or_string (relativeResultsDirectory r) (or_string (executionId r) (uuid_v4 h (uuid_calls w)))]) True
     # map (\<lambda>a. CopyFileSync a
              (path_join h [path_join h [cwd h, replace f ''.trx'' [], ''In'',
                 or_string (relativeResultsDirectory r) (or_string (executionId r) (uuid_v4 h (uuid_calls w)))],
               base_name h a])) as"
  by (simp add: move_attachments_eq Let_def copy_attachments_calls split: option.split)

lemma move_attachments_keeps:
  "console_warn (snd (move_attachments h f as r w)) = console_warn w"
  "toXml_calls (snd (move_attachments h f as r w)) = toXml_calls w"
  "runner_testResults (snd (move_attachments h f as r w)) = runner_testResults w"
  "uuid_calls (snd (move_attachments h f as r w)) =
     (if truthy_str (executionId r) then uuid_calls w else Suc (uuid_calls w))"
  by (simp_all add: move_attachments_eq Let_def copy_attachments_keeps split: option.split)

lemma errors_logged_uuid:
  "errors_logged h (w\<lparr>uuid_calls := n\<rparr>) = errors_logged h w"
  by (simp add: errors_logged_def)

lemma errors_logged_move:
  assumes "errors_logged h w"
  shows "errors_logged h (snd (move_attachments h f as r w))"
proof -
  define ap where "ap = path_join h [cwd h, replace f ''.trx'' [], ''In'',
          or_string (relativeResultsDirectory r) (or_string (executionId r) (uuid_v4 h (uuid_calls w)))]"
  define w0 where "w0 = (if truthy_str (executionId r) then w else w\<lparr>uuid_calls := Suc (uuid_calls w)\<rparr>)"
  define w2 where "w2 = (case fs_throws h (fs_calls w) (MkdirSync ap True) of
                  None \<Rightarrow> w0\<lparr>stdout := stdout w @ [mkdir_line ap],
                             fs_calls := fs_calls w @ [MkdirSync ap True]\<rparr>
                | Some e \<Rightarrow> w0\<lparr>fs_calls := fs_calls w @ [MkdirSync ap True],
                               stdout := stdout w @ [mkdir_line ap, mkdir_error_line ap e]\<rparr>)"
  have w0: "errors_logged h w0" "fs_calls w0 = fs_calls w" "stdout w0 = stdout w"
    using assms by (simp_all add: w0_def errors_logged_uuid)
  have "errors_logged h w2"
  proof (cases "fs_throws h (fs_calls w) (MkdirSync ap True)")
    case None
    from errors_logged_stdout [OF w0(1), of "[mkdir_line ap]"] None w0(2,3) show ?thesis
      by (simp add: w2_def errors_logged_def errors_logged_from_append)
  next
    case (Some e)
    from errors_logged_stdout [OF w0(1), of "[mkdir_line ap, mkdir_error_line ap e]"] Some w0(2,3)
    show ?thesis
      by (simp add: w2_def errors_logged_def errors_logged_from_append)
  qed
  then have "errors_logged h (snd (copy_attachments h ap as w2))"
    by (rule errors_logged_copy)
  then show ?thesis
    unfolding move_attachments_eq Let_def ap_def w0_def w2_def by simp
qed

text \<open>One step of the loop.\<close>

lemma report_test_excluded:
  "pending t \<Longrightarrow> excludePending ro = JBool True \<Longrightarrow>
   report_test h ro fn t (run0, n, w) = (run0, Suc n, w)"
  by (simp add: report_test_def strict_eq_true_def)

lemma report_test_plain:
  "\<not> (pending t \<and> excludePending ro = JBool True) \<Longrightarrow> relocation fn (attachments t) = None \<Longrightarrow>
   report_test h ro fn t (run0, n, w) = (addResult (testToTrx h t (computerName h) (cwd h) ro) run0, n, w)"
  by (simp add: report_test_def strict_eq_true_def)

lemma report_test_moved:
  "\<not> (pending t \<and> excludePending ro = JBool True) \<Longrightarrow> relocation fn (attachments t) = Some (f, as) \<Longrightarrow>
   report_test h ro fn t (run0, n, w) =
     (addResult (fst (move_attachments h f as (testToTrx h t (computerName h) (cwd h) ro) w)) run0, n,
      snd (move_attachments h f as (testToTrx h t (computerName h) (cwd h) ro) w))"
  by (simp add: report_test_def strict_eq_true_def split_beta Let_def)

lemma relocation_falsy: "\<not> truthy_str fn \<Longrightarrow> relocation fn atts = None"
  by (cases fn; cases atts) auto

lemma relocation_Some:
  "relocation fn atts = Some (f, as) \<longleftrightarrow> fn = Some f \<and> f \<noteq> [] \<and> atts = Some as \<and> as \<noteq> []"
  by (cases fn; cases atts) auto

lemma entry_of_moved:
  "entry_of h ro t (fst (move_attachments h f as (testToTrx h t (computerName h) (cwd h) ro) w))"
  by (simp add: entry_of_def move_attachments_result)

lemma entry_of_plain: "entry_of h ro t (testToTrx h t (computerName h) (cwd h) ro)"
  by (simp add: entry_of_def)

text \<open>What one step does, in a form for induction over the loop.\<close>

lemma report_test_step:
  assumes "report_test h ro fn t (run0, n, w) = (run1, n1, w1)"
  shows "n1 = n + (if pending t \<and> excludePending ro = JBool True then 1 else 0)"
    and "pending t \<and> excludePending ro = JBool True \<Longrightarrow> run1 = run0"
    and "\<not> (pending t \<and> excludePending ro = JBool True) \<Longrightarrow> \<exists>r. run1 = addResult r run0 \<and> entry_of h ro t r"
    and "console_warn w1 = console_warn w"
    and "toXml_calls w1 = toXml_calls w"
    and "runner_testResults w1 = runner_testResults w"
    and "\<not> truthy_str fn \<Longrightarrow> w1 = w"
    and "errors_logged h w \<Longrightarrow> errors_logged h w1"
proof -
  consider (ex) "pending t \<and> excludePending ro = JBool True"
    | (plain) "\<not> (pending t \<and> excludePending ro = JBool True)" "relocation fn (attachments t) = None"
    | (moved) f as where "\<not> (pending t \<and> excludePending ro = JBool True)"
        "relocation fn (attachments t) = Some (f, as)"
    by (cases "relocation fn (attachments t)") auto
  note cases = this
  show "n1 = n + (if pending t \<and> excludePending ro = JBool True then 1 else 0)"
    using assms by (cases rule: cases) (simp_all add: report_test_excluded report_test_plain report_test_moved)
  show "run1 = run0" if "pending t \<and> excludePending ro = JBool True"
    using assms that by (simp add: report_test_excluded)
  show "\<exists>r. run1 = addResult r run0 \<and> entry_of h ro t r" if "\<not> (pending t \<and> excludePending ro = JBool True)"
    using assms that
    by (cases rule: cases) (auto simp: report_test_plain report_test_moved entry_of_moved entry_of_plain)
  show "console_warn w1 = console_warn w"
    using assms
    by (cases rule: cases) (auto simp: report_test_excluded report_test_plain report_test_moved move_attachments_keeps)
  show "toXml_calls w1 = toXml_calls w"
    using assms
    by (cases rule: cases) (auto simp: report_test_excluded report_test_plain report_test_moved move_attachments_keeps)
  show "runner_testResults w1 = runner_testResults w"
    using assms
    by (cases rule: cases) (auto simp: report_test_excluded report_test_plain report_test_moved move_attachments_keeps)
  show "w1 = w" if "\<not> truthy_str fn"
    using assms relocation_falsy [OF that, of "attachments t"]
    by (cases "pending t \<and> excludePending ro = JBool True")
       (auto simp: report_test_excluded report_test_plain)
  show "errors_logged h w1" if "errors_logged h w"
    using assms that
    by (cases rule: cases)
       (auto simp: report_test_excluded report_test_plain report_test_moved errors_logged_move)
qed

section \<open>The loop over the accumulated tests\<close>

lemma fold_report:
  "fold (report_test h ro fn) ts (run0, n, w) = (run1, n1, w1) \<Longrightarrow>
   n1 = n + length (filter (excluded ro) ts)
   \<and> (\<exists>es. run1 = run0\<lparr>results := results run0 @ es\<rparr>
            \<and> list_all2 (\<lambda>r t. entry_of h ro t r) es (filter (\<lambda>t. \<not> excluded ro t) ts))
   \<and> console_warn w1 = console_warn w
   \<and> toXml_calls w1 = toXml_calls w
   \<and> runner_testResults w1 = runner_testResults w
   \<and> (\<not> truthy_str fn \<longrightarrow> w1 = w)
   \<and> (errors_logged h w \<longrightarrow> errors_logged h w1)"
proof (induction ts arbitrary: run0 n w)
  case Nil
  then show ?case by simp
next
  case (Cons t ts)
  obtain run' n' w' where step: "report_test h ro fn t (run0, n, w) = (run', n', w')"
    by (cases "report_test h ro fn t (run0, n, w)") auto
  with Cons.prems have "fold (report_test h ro fn) ts (run', n', w') = (run1, n1, w1)" by simp
  note ih = Cons.IH [OF this]
  note st = report_test_step [OF step]
  from ih obtain es where es: "run1 = run'\<lparr>results := results run' @ es\<rparr>"
    "list_all2 (\<lambda>r t. entry_of h ro t r) es (filter (\<lambda>t. \<not> excluded ro t) ts)"
    by blast
  have "\<exists>es. run1 = run0\<lparr>results := results run0 @ es\<rparr>
            \<and> list_all2 (\<lambda>r t. entry_of h ro t r) es (filter (\<lambda>t. \<not> excluded ro t) (t # ts))"
  proof (cases "excluded ro t")
    case True
    with st(2) es show ?thesis by auto
  next
    case False
    with st(3) obtain r where r: "run' = addResult r run0" "entry_of h ro t r" by blast
    with es have "run1 = run0\<lparr>results := results run0 @ (r # es)\<rparr>"
      by (simp add: addResult_def)
    moreover from r es False
    have "list_all2 (\<lambda>r t. entry_of h ro t r) (r # es) (filter (\<lambda>t. \<not> excluded ro t) (t # ts))"
      by simp
    ultimately show ?thesis by blast
  qed
  moreover from ih st(1) have "n1 = n + length (filter (excluded ro) (t # ts))" by simp
  moreover from ih st(4,5,6) have "console_warn w1 = console_warn w" "toXml_calls w1 = toXml_calls w"
    "runner_testResults w1 = runner_testResults w" by simp_all
  moreover from ih st(7) have "\<not> truthy_str fn \<longrightarrow> w1 = w" by simp
  moreover from ih st(8) have "errors_logged h w \<longrightarrow> errors_logged h w1" by simp
  ultimately show ?case by blast
qed

lemma report_test_fs_independent:
  assumes "uuid_calls v = uuid_calls w"
    and "report_test h ro fn t (run0, n, w) = (run1, n1, w1)"
  shows "\<exists>v1. report_test (h\<lparr>fs_throws := g\<rparr>) ro fn t (run0, n, v) = (run1, n1, v1)
              \<and> uuid_calls v1 = uuid_calls w1"
proof -
  consider (ex) "excluded ro t"
    | (plain) "\<not> excluded ro t" "relocation fn (attachments t) = None"
    | (moved) f as where "\<not> excluded ro t" "relocation fn (attachments t) = Some (f, as)"
    by (cases "relocation fn (attachments t)") auto
  then show ?thesis
  proof cases
    case ex
    with assms show ?thesis by (simp add: report_test_excluded)
  next
    case plain
    with assms show ?thesis by (simp add: report_test_plain)
  next
    case moved
    with assms show ?thesis
      by (auto simp: report_test_moved move_attachments_result move_attachments_keeps base_name_def)
  qed
qed

lemma fold_report_fs_independent:
  "uuid_calls v = uuid_calls w \<Longrightarrow>
   fold (report_test h ro fn) ts (run0, n, w) = (run1, n1, w1) \<Longrightarrow>
   \<exists>v1. fold (report_test (h\<lparr>fs_throws := g\<rparr>) ro fn) ts (run0, n, v) = (run1, n1, v1)
        \<and> uuid_calls v1 = uuid_calls w1"
proof (induction ts arbitrary: run0 n w v)
  case Nil
  then show ?case by simp
next
  case (Cons t ts)
  obtain run' n' w' where step: "report_test h ro fn t (run0, n, w) = (run', n', w')"
    by (cases "report_test h ro fn t (run0, n, w)") auto
  from report_test_fs_independent [OF Cons.prems(1) step, of g]
  obtain v' where v': "report_test (h\<lparr>fs_throws := g\<rparr>) ro fn t (run0, n, v) = (run', n', v')"
    "uuid_calls v' = uuid_calls w'" by blast
  from Cons.prems(2) step have "fold (report_test h ro fn) ts (run', n', w') = (run1, n1, w1)" by simp
  from Cons.IH [OF v'(2) this] v'(1) show ?case by simp
qed

lemma collect_results_eq:
  "fold (report_test h (reporterOptions_or_empty opts)
           (getFilename (rnd h) (MOCHA_REPORTER_FILE h) (reporterOptions_or_empty opts)))
        ts (run0, 0, w) = (run1, n1, w1) \<Longrightarrow>
   collect_results h opts ts run0 w =
     (getFilename (rnd h) (MOCHA_REPORTER_FILE h) (reporterOptions_or_empty opts), run1, n1,
      warn_excluded (reporterOptions_or_empty opts) n1 w1)"
  by (simp add: collect_results_def Let_def)

lemma collect_resultsD:
  assumes "collect_results h opts ts run0 w = (fn, run1, n1, w2)"
  obtains w1 where
    "fn = getFilename (rnd h) (MOCHA_REPORTER_FILE h) (reporterOptions_or_empty opts)"
    "fold (report_test h (reporterOptions_or_empty opts) fn) ts (run0, 0, w) = (run1, n1, w1)"
    "w2 = warn_excluded (reporterOptions_or_empty opts) n1 w1"
proof -
  let ?ro = "reporterOptions_or_empty opts"
  let ?fn = "getFilename (rnd h) (MOCHA_REPORTER_FILE h) ?ro"
  obtain r' n' w' where f: "fold (report_test h ?ro ?fn) ts (run0, 0, w) = (r', n', w')"
    by (cases "fold (report_test h ?ro ?fn) ts (run0, 0, w)") auto
  from collect_results_eq [OF f] assms that f show thesis by simp
qed

lemma warn_excluded_keeps:
  "fs_calls (warn_excluded ro n w) = fs_calls w"
  "stdout (warn_excluded ro n w) = stdout w"
  "toXml_calls (warn_excluded ro n w) = toXml_calls w"
  "uuid_calls (warn_excluded ro n w) = uuid_calls w"
  "runner_testResults (warn_excluded ro n w) = runner_testResults w"
  "errors_logged h (warn_excluded ro n w) = errors_logged h w"
  by (simp_all add: warn_excluded_def errors_logged_def)

lemma warn_excluded_warn:
  "console_warn (warn_excluded ro n w) =
     console_warn w @ (if warnExcludedPending ro = JBool True \<and> 0 < n then [warning_text n] else [])"
  by (simp add: warn_excluded_def strict_eq_true_def)

section \<open>Exclusion of pending tests\<close>

text \<open>
  Claim C4. When \<^verbatim>\<open>excludePending\<close> is \<^verbatim>\<open>true\<close>, the result entries of the report are, in
  order, entries of the accumulated tests that are not pending, one for each: no entry comes
  from a pending test. \<^verbatim>\<open>excludedPendingCount\<close> is the number of pending tests among the
  accumulated ones.
\<close>

theorem excludePending_drops_pending:
  assumes "excludePending ro = JBool True"
    and "collect_results h (Some ro) ts (new_TestRun h now s f) w = (fn, run1, excludedPendingCount, w1)"
  shows "list_all2 (\<lambda>r t. entry_of h ro t r) (results run1) (filter (\<lambda>t. \<not> pending t) ts)
         \<and> length (results run1) = length (filter (\<lambda>t. \<not> pending t) ts)
         \<and> excludedPendingCount = length (filter pending ts)"
proof -
  from assms(2) obtain w0 where
    "fold (report_test h ro fn) ts (new_TestRun h now s f, 0, w) = (run1, excludedPendingCount, w0)"
    by (rule collect_resultsD) (simp add: reporterOptions_or_empty_def)
  from fold_report [OF this] assms(1)
  have "list_all2 (\<lambda>r t. entry_of h ro t r) (results run1) (filter (\<lambda>t. \<not> pending t) ts)"
    and "excludedPendingCount = length (filter pending ts)"
    by (auto simp: new_TestRun_def)
  then show ?thesis by (auto dest: list_all2_lengthD)
qed

text \<open>Of the three sample tests one is pending: two entries, one exclusion.\<close>

theorem excludePending_drops_pending_witness:
  "(case collect_results sample_host (Some (sample_options None (JBool True) (JBool True))) sample_tests
           (new_TestRun sample_host ''now'' ''s'' ''f'') sample_world of
      (fn, run1, excludedPendingCount, w1) \<Rightarrow>
        length (results run1) = 2 \<and> excludedPendingCount = 1)"
  using excludePending_drops_pending [of "sample_options None (JBool True) (JBool True)" sample_host
      sample_tests "''now''" "''s''" "''f''" sample_world
      "fst (collect_results sample_host (Some (sample_options None (JBool True) (JBool True))) sample_tests
           (new_TestRun sample_host ''now'' ''s'' ''f'') sample_world)"
      "fst (snd (collect_results sample_host (Some (sample_options None (JBool True) (JBool True))) sample_tests
           (new_TestRun sample_host ''now'' ''s'' ''f'') sample_world))"
      "fst (snd (snd (collect_results sample_host (Some (sample_options None (JBool True) (JBool True))) sample_tests
           (new_TestRun sample_host ''now'' ''s'' ''f'') sample_world)))"
      "snd (snd (snd (collect_results sample_host (Some (sample_options None (JBool True) (JBool True))) sample_tests
           (new_TestRun sample_host ''now'' ''s'' ''f'') sample_world)))"]
  by (simp add: sample_options_def sample_tests_def sample_test_def split_beta)

lemma collect_results_surj:
  "collect_results h opts ts run0 w =
     (fst (collect_results h opts ts run0 w), fst (snd (collect_results h opts ts run0 w)),
      fst (snd (snd (collect_results h opts ts run0 w))), snd (snd (snd (collect_results h opts ts run0 w))))"
  by simp

text \<open>
  Claim C7. With \<^verbatim>\<open>excludePending\<close> \<^verbatim>\<open>true\<close>, the excluded count is the number of pending
  tests. If \<^verbatim>\<open>warnExcludedPending\<close> is \<^verbatim>\<open>true\<close> as well, the listener adds exactly one
  \<^verbatim>\<open>console.warn\<close> line: the singular sentence for a count of 1, the plural sentence with the
  count for a larger count. For a count of 0 it adds none.
\<close>

theorem warning_for_excluded:
  assumes "excludePending ro = JBool True"
    and "collect_results h (Some ro) ts (new_TestRun h now s f) w = (fn, run1, excludedPendingCount, w1)"
  shows "excludedPendingCount = length (filter pending ts)
         \<and> (warnExcludedPending ro = JBool True \<and> excludedPendingCount = 1 \<longrightarrow>
              console_warn w1 = console_warn w @ [''##[warning]Excluded 1 test because it is marked as Pending.''])
         \<and> (warnExcludedPending ro = JBool True \<and> excludedPendingCount > 1 \<longrightarrow>
              console_warn w1 = console_warn w @ [''##[warning]Excluded '' @ dec excludedPendingCount
                                                    @ '' tests because they are marked as Pending.''])
         \<and> (excludedPendingCount = 0 \<longrightarrow> console_warn w1 = console_warn w)"
proof -
  from assms(2) obtain w0 where
    f: "fold (report_test h ro fn) ts (new_TestRun h now s f, 0, w) = (run1, excludedPendingCount, w0)"
    and w1: "w1 = warn_excluded ro excludedPendingCount w0"
    by (rule collect_resultsD) (simp add: reporterOptions_or_empty_def)
  from fold_report [OF f] assms(1)
  have "excludedPendingCount = length (filter pending ts)" and "console_warn w0 = console_warn w"
    by auto
  then show ?thesis
    by (simp add: w1 warn_excluded_warn warning_text_def)
qed

text \<open>
  One pending test among the three samples: the singular warning, once. Two pending tests:
  the plural warning with the count 2. No pending test: no warning.
\<close>

theorem warning_for_excluded_witness:
  "(case collect_results sample_host (Some (sample_options None (JBool True) (JBool True))) sample_tests
           (new_TestRun sample_host ''now'' ''s'' ''f'') sample_world of
      (fn, run1, excludedPendingCount, w1) \<Rightarrow>
        excludedPendingCount = 1
        \<and> console_warn w1 = [''##[warning]Excluded 1 test because it is marked as Pending.''])
   \<and> (case collect_results sample_host (Some (sample_options None (JBool True) (JBool True)))
           (sample_tests @ sample_tests) (new_TestRun sample_host ''now'' ''s'' ''f'') sample_world of
      (fn, run1, excludedPendingCount, w1) \<Rightarrow>
        excludedPendingCount = 2
        \<and> console_warn w1 = [''##[warning]Excluded 2 tests because they are marked as Pending.''])
   \<and> (case collect_results sample_host (Some (sample_options None (JBool True) (JBool True)))
           [sample_B] (new_TestRun sample_host ''now'' ''s'' ''f'') sample_world of
      (fn, run1, excludedPendingCount, w1) \<Rightarrow> excludedPendingCount = 0 \<and> console_warn w1 = [])"
  using warning_for_excluded [where h = sample_host
      and ro = "sample_options None (JBool True) (JBool True)" and ts = sample_tests
      and now = "''now''" and s = "''s''" and f = "''f''" and w = sample_world, OF _ collect_results_surj]
    warning_for_excluded [where h = sample_host
      and ro = "sample_options None (JBool True) (JBool True)" and ts = "sample_tests @ sample_tests"
      and now = "''now''" and s = "''s''" and f = "''f''" and w = sample_world, OF _ collect_results_surj]
    warning_for_excluded [where h = sample_host
      and ro = "sample_options None (JBool True) (JBool True)" and ts = "[sample_B]"
      and now = "''now''" and s = "''s''" and f = "''f''" and w = sample_world, OF _ collect_results_surj]
  by (simp add: sample_options_def sample_tests_def sample_test_def sample_B_def sample_world_def split_beta
        dec.simps digit_char_def)

text \<open>
  Claim C10. If \<^verbatim>\<open>excludePending\<close> is anything but the boolean \<^verbatim>\<open>true\<close>, every accumulated
  test, pending or not, has its entry in the report, nothing is counted as excluded and no
  warning is added. If \<^verbatim>\<open>warnExcludedPending\<close> is anything but the boolean \<^verbatim>\<open>true\<close>, no
  warning is added.
\<close>

theorem options_must_be_true:
  assumes "collect_results h (Some ro) ts (new_TestRun h now s f) w = (fn, run1, excludedPendingCount, w1)"
  shows "(excludePending ro \<noteq> JBool True \<longrightarrow>
            list_all2 (\<lambda>r t. entry_of h ro t r) (results run1) ts
            \<and> excludedPendingCount = 0 \<and> console_warn w1 = console_warn w)
         \<and> (warnExcludedPending ro \<noteq> JBool True \<longrightarrow> console_warn w1 = console_warn w)"
proof -
  from assms obtain w0 where
    f: "fold (report_test h ro fn) ts (new_TestRun h now s f, 0, w) = (run1, excludedPendingCount, w0)"
    and w1: "w1 = warn_excluded ro excludedPendingCount w0"
    by (rule collect_resultsD) (simp add: reporterOptions_or_empty_def)
  note fr = fold_report [OF f]
  from fr have cw: "console_warn w0 = console_warn w" by simp
  have "list_all2 (\<lambda>r t. entry_of h ro t r) (results run1) ts \<and> excludedPendingCount = 0
        \<and> console_warn w1 = console_warn w" if "excludePending ro \<noteq> JBool True"
    using fr that cw by (auto simp: new_TestRun_def w1 warn_excluded_warn)
  moreover have "console_warn w1 = console_warn w" if "warnExcludedPending ro \<noteq> JBool True"
    using that cw by (simp add: w1 warn_excluded_warn)
  ultimately show ?thesis by blast
qed

text \<open>
  The string \<^verbatim>\<open>"true"\<close> is truthy: as \<^verbatim>\<open>excludePending\<close> it keeps the pending sample test
  in the report, and as \<^verbatim>\<open>warnExcludedPending\<close> it gives no warning for one excluded test.
\<close>

theorem options_must_be_true_witness:
  "truthy (JStr ''true'')
   \<and> (case collect_results sample_host (Some (sample_options None (JStr ''true'') (JStr ''true''))) sample_tests
           (new_TestRun sample_host ''now'' ''s'' ''f'') sample_world of
      (fn, run1, excludedPendingCount, w1) \<Rightarrow>
        map outcome (results run1) = [''passed'', ''pending'', ''failed'']
        \<and> excludedPendingCount = 0 \<and> console_warn w1 = [])
   \<and> (case collect_results sample_host (Some (sample_options None (JBool True) (JStr ''true''))) sample_tests
           (new_TestRun sample_host ''now'' ''s'' ''f'') sample_world of
      (fn, run1, excludedPendingCount, w1) \<Rightarrow> excludedPendingCount = 1 \<and> console_warn w1 = [])"
proof -
  let ?c = "collect_results sample_host (Some (sample_options None (JStr ''true'') (JStr ''true''))) sample_tests
           (new_TestRun sample_host ''now'' ''s'' ''f'') sample_world"
  let ?d = "collect_results sample_host (Some (sample_options None (JBool True) (JStr ''true''))) sample_tests
           (new_TestRun sample_host ''now'' ''s'' ''f'') sample_world"
  have 1: "list_all2 (\<lambda>r t. entry_of sample_host (sample_options None (JStr ''true'') (JStr ''true'')) t r)
             (results (fst (snd ?c))) sample_tests
           \<and> fst (snd (snd ?c)) = 0 \<and> console_warn (snd (snd (snd ?c))) = []"
    using options_must_be_true [where h = sample_host
        and ro = "sample_options None (JStr ''true'') (JStr ''true'')" and ts = sample_tests
        and now = "''now''" and s = "''s''" and f = "''f''" and w = sample_world, OF collect_results_surj]
    by (simp add: sample_options_def sample_world_def)
  then have "map outcome (results (fst (snd ?c))) = [''passed'', ''pending'', ''failed'']"
    by (auto simp: sample_tests_def list_all2_Cons2 entry_of_def sample_host_def sample_testToTrx_def
          sample_test_def)
  moreover have "console_warn (snd (snd (snd ?d))) = []"
    using options_must_be_true [where h = sample_host
        and ro = "sample_options None (JBool True) (JStr ''true'')" and ts = sample_tests
        and now = "''now''" and s = "''s''" and f = "''f''" and w = sample_world, OF collect_results_surj]
    by (simp add: sample_options_def sample_world_def)
  moreover have "fst (snd (snd ?d)) = 1"
    by (simp add: collect_results_def sample_options_def sample_tests_def sample_test_def
          reporterOptions_or_empty_def report_test_def strict_eq_true_def Let_def split_beta)
  ultimately show ?thesis using 1 by (simp add: split_beta)
qed

section \<open>The name of the run\<close>

lemma length_pad_dec: "n < 10 ^ k \<Longrightarrow> 0 < k \<Longrightarrow> length (padStart k (dec n)) = k"
  by (simp add: length_padStart length_dec_less)

text \<open>
  Claim C8. The name given to the \<^verbatim>\<open>TestRun\<close> is the user name, an at sign, the host name, a
  blank, the date \<^verbatim>\<open>YYYY-MM-DD\<close>, a blank and the time \<^verbatim>\<open>HH:MM:SS\<close> of the listener's
  \<^verbatim>\<open>Date\<close> in UTC. The timestamp has no dot (no fractional part), no \<^verbatim>\<open>Z\<close> (no timezone
  suffix) and no \<^verbatim>\<open>T\<close>; for a year of at most four digits the date has 10 characters and the
  time has 8.
\<close>

theorem run_name_format:
  "name (new_TestRun h (toISOString d) s f)
     = userName h @ ''@'' @ computerName h @ '' '' @ date_str d @ '' '' @ time_str d
   \<and> CHR ''.'' \<notin> set (date_str d @ '' '' @ time_str d)
   \<and> CHR ''Z'' \<notin> set (date_str d @ '' '' @ time_str d)
   \<and> CHR ''T'' \<notin> set (date_str d @ '' '' @ time_str d)
   \<and> (year d \<le> 9999 \<and> month d \<le> 12 \<and> day d \<le> 31 \<and> hours d < 24 \<and> minutes d < 60 \<and> seconds d < 60
        \<longrightarrow> length (date_str d) = 10 \<and> length (time_str d) = 8)"
proof (intro conjI impI)
  show "name (new_TestRun h (toISOString d) s f)
     = userName h @ ''@'' @ computerName h @ '' '' @ date_str d @ '' '' @ time_str d"
    using seconds_of_iso [of d] by (simp add: new_TestRun_def testRunName_def)
  show "CHR ''.'' \<notin> set (date_str d @ '' '' @ time_str d)"
    by (simp add: notin_date_str notin_time_str)
  show "CHR ''Z'' \<notin> set (date_str d @ '' '' @ time_str d)"
    by (simp add: notin_date_str notin_time_str)
  show "CHR ''T'' \<notin> set (date_str d @ '' '' @ time_str d)"
    by (simp add: notin_date_str notin_time_str)
next
  assume r: "year d \<le> 9999 \<and> month d \<le> 12 \<and> day d \<le> 31 \<and> hours d < 24 \<and> minutes d < 60 \<and> seconds d < 60"
  then have "length (padStart 4 (dec (year d))) = 4" by (intro length_pad_dec) simp_all
  moreover from r have "length (padStart 2 (dec (month d))) = 2" by (intro length_pad_dec) simp_all
  moreover from r have "length (padStart 2 (dec (day d))) = 2" by (intro length_pad_dec) simp_all
  ultimately show "length (date_str d) = 10" using r by (simp add: date_str_def year_str_def)
  from r have "length (padStart 2 (dec (hours d))) = 2" by (intro length_pad_dec) simp_all
  moreover from r have "length (padStart 2 (dec (minutes d))) = 2" by (intro length_pad_dec) simp_all
  moreover from r have "length (padStart 2 (dec (seconds d))) = 2" by (intro length_pad_dec) simp_all
  ultimately show "length (time_str d) = 8" by (simp add: time_str_def)
qed

text \<open>The run of \<^verbatim>\<open>alice\<close> on \<^verbatim>\<open>build01\<close> at 07:05:42.017 on 9 March 2024.\<close>

theorem run_name_format_witness:
  "name (new_TestRun sample_host (toISOString sample_time) (toISOString sample_time) (toISOString sample_time))
     = ''alice@build01 2024-03-09 07:05:42''
   \<and> length (date_str sample_time) = 10 \<and> length (time_str sample_time) = 8"
  using run_name_format [of sample_host sample_time "toISOString sample_time" "toISOString sample_time"]
  by (simp add: sample_host_def sample_time_def date_str_def time_str_def year_str_def padStart_def
        dec.simps digit_char_def)

section \<open>Writing the report\<close>

lemma on_end_eq:
  assumes "stats_start st = Some s" "stats_end st = Some e"
    and "collect_results h opts (map (objs rs) (tests rs))
           (new_TestRun h (toISOString now) (toISOString s) (toISOString e))
           (w\<lparr>runner_testResults := Some (st, map (objs rs) (tests rs))\<rparr>) = (fn, run1, n, w1)"
  shows "on_end h opts st now rs w = write_report h fn run1 w1"
  using assms by (simp add: on_end_def Let_def)

lemma collect_results_world:
  assumes "collect_results h opts ts run0 w = (fn, run1, n, w1)"
  shows "toXml_calls w1 = toXml_calls w"
    and "\<not> truthy_str fn \<Longrightarrow> fs_calls w1 = fs_calls w \<and> stdout w1 = stdout w"
    and "errors_logged h w \<Longrightarrow> errors_logged h w1"
    and "fn = getFilename (rnd h) (MOCHA_REPORTER_FILE h) (reporterOptions_or_empty opts)"
proof -
  from assms obtain w0 where
    fn: "fn = getFilename (rnd h) (MOCHA_REPORTER_FILE h) (reporterOptions_or_empty opts)"
    and f: "fold (report_test h (reporterOptions_or_empty opts) fn) ts (run0, 0, w) = (run1, n, w0)"
    and w1: "w1 = warn_excluded (reporterOptions_or_empty opts) n w0"
    by (rule collect_resultsD)
  note fr = fold_report [OF f]
  from fr show "toXml_calls w1 = toXml_calls w" by (simp add: w1 warn_excluded_keeps)
  from fr show "fs_calls w1 = fs_calls w \<and> stdout w1 = stdout w" if "\<not> truthy_str fn"
    using that by (simp add: w1 warn_excluded_keeps)
  from fr show "errors_logged h w1" if "errors_logged h w"
    using that by (simp add: w1 warn_excluded_keeps)
  from fn show "fn = getFilename (rnd h) (MOCHA_REPORTER_FILE h) (reporterOptions_or_empty opts)" .
qed

lemma write_report_file:
  assumes "f \<noteq> []"
    and "fs_throws h (fs_calls w) (MkdirSync (path_dirname h f) True) = None"
    and "fs_throws h (fs_calls w @ [MkdirSync (path_dirname h f) True]) (WriteFileSync f (toXml h run0)) = None"
  shows "write_report h (Some f) run0 w =
           (None, w\<lparr>fs_calls := fs_calls w @ [MkdirSync (path_dirname h f) True],
                     toXml_calls := Suc (toXml_calls w),
                     fs_calls := fs_calls w @ [MkdirSync (path_dirname h f) True, WriteFileSync f (toXml h run0)]\<rparr>)"
  using assms by (simp add: write_report_def fs_do_def Let_def)

text \<open>
  Claim C6, as the code has it. Provided the statistics carry both timestamps: when the file name is a non-empty
  string and neither of the two final file-system calls throws, the listener ends without an
  exception, its last two file-system calls are \<^verbatim>\<open>mkdirSync\<close> of the parent directory of the
  file name with \<^verbatim>\<open>recursive\<close> and \<^verbatim>\<open>writeFileSync\<close> of the serialized report to the file name,
  nothing more is written to standard output, and \<^verbatim>\<open>toXml\<close> has been called once. When no file
  name is resolved, the listener ends without an exception, makes no file-system call at
  all, writes the serialized report to standard output, and \<^verbatim>\<open>toXml\<close> has been called once.
\<close>

theorem report_written_once:
  assumes "stats_start st = Some s" and "stats_end st = Some e"
    and "collect_results h opts (map (objs rs) (tests rs))
           (new_TestRun h (toISOString now) (toISOString s) (toISOString e))
           (w\<lparr>runner_testResults := Some (st, map (objs rs) (tests rs))\<rparr>) = (fn, run1, n, w1)"
  shows "(fn = Some f \<and> f \<noteq> []
            \<and> fs_throws h (fs_calls w1) (MkdirSync (path_dirname h f) True) = None
            \<and> fs_throws h (fs_calls w1 @ [MkdirSync (path_dirname h f) True])
                 (WriteFileSync f (toXml h run1)) = None
          \<longrightarrow> fst (on_end h opts st now rs w) = None
              \<and> fs_calls (snd (on_end h opts st now rs w))
                   = fs_calls w1 @ [MkdirSync (path_dirname h f) True, WriteFileSync f (toXml h run1)]
              \<and> stdout (snd (on_end h opts st now rs w)) = stdout w1
              \<and> toXml_calls (snd (on_end h opts st now rs w)) = Suc (toXml_calls w))
         \<and> (\<not> truthy_str fn
          \<longrightarrow> fst (on_end h opts st now rs w) = None
              \<and> fs_calls (snd (on_end h opts st now rs w)) = fs_calls w
              \<and> stdout (snd (on_end h opts st now rs w)) = stdout w @ [toXml h run1]
              \<and> toXml_calls (snd (on_end h opts st now rs w)) = Suc (toXml_calls w))"
proof -
  note oe = on_end_eq [OF assms]
  note cw = collect_results_world [OF assms(3)]
  from cw(1) have tx: "toXml_calls w1 = toXml_calls w" by simp
  show ?thesis
  proof (intro conjI impI)
    assume a: "fn = Some f \<and> f \<noteq> []
            \<and> fs_throws h (fs_calls w1) (MkdirSync (path_dirname h f) True) = None
            \<and> fs_throws h (fs_calls w1 @ [MkdirSync (path_dirname h f) True])
                 (WriteFileSync f (toXml h run1)) = None"
    then have wr: "on_end h opts st now rs w =
           (None, w1\<lparr>fs_calls := fs_calls w1 @ [MkdirSync (path_dirname h f) True],
                     toXml_calls := Suc (toXml_calls w1),
                     fs_calls := fs_calls w1 @ [MkdirSync (path_dirname h f) True, WriteFileSync f (toXml h run1)]\<rparr>)"
      using write_report_file [of f h w1 run1] oe by simp
    show "fst (on_end h opts st now rs w) = None" by (simp add: wr)
    show "fs_calls (snd (on_end h opts st now rs w))
                   = fs_calls w1 @ [MkdirSync (path_dirname h f) True, WriteFileSync f (toXml h run1)]"
      by (simp add: wr)
    show "stdout (snd (on_end h opts st now rs w)) = stdout w1" by (simp add: wr)
    show "toXml_calls (snd (on_end h opts st now rs w)) = Suc (toXml_calls w)" by (simp add: wr tx)
  next
    assume a: "\<not> truthy_str fn"
    from cw(2) [OF a] have k: "fs_calls w1 = fs_calls w" "stdout w1 = stdout w" by simp_all
    have wr: "on_end h opts st now rs w
                = (None, w1\<lparr>toXml_calls := Suc (toXml_calls w1), stdout := stdout w1 @ [toXml h run1]\<rparr>)"
      using write_report_stdout [OF a, of h run1 w1] oe by simp
    show "fst (on_end h opts st now rs w) = None" by (simp add: wr)
    show "fs_calls (snd (on_end h opts st now rs w)) = fs_calls w" by (simp add: wr k)
    show "stdout (snd (on_end h opts st now rs w)) = stdout w @ [toXml h run1]" by (simp add: wr k)
    show "toXml_calls (snd (on_end h opts st now rs w)) = Suc (toXml_calls w)" by (simp add: wr tx)
  qed
qed

section \<open>The sample run, evaluated\<close>

lemmas posix_eval = posix_join_def posix_normalize_def posix_dirname_def split_def Let_def

lemma sample_join_dir:
  "posix_join [''/work'', ''results/out'', ''In'', ''uuid-0''] = ''/work/results/out/In/uuid-0''"
  by (simp add: posix_eval)

lemma sample_join_a:
  "posix_join [''/work/results/out/In/uuid-0'', ''a.png''] = ''/work/results/out/In/uuid-0/a.png''"
  by (simp add: posix_eval)

lemma sample_join_b:
  "posix_join [''/work/results/out/In/uuid-0'', ''b.png''] = ''/work/results/out/In/uuid-0/b.png''"
  by (simp add: posix_eval)

lemma sample_base_names:
  "base_name sample_host ''shots/a.png'' = ''a.png''" "base_name sample_host ''shots/b.png'' = ''b.png''"
  by (simp_all add: base_name_def split_def sample_host_def)

lemma sample_strip: "replace ''results/out.trx'' ''.trx'' [] = ''results/out''"
  by (simp add: replace_def)

lemma sample_dirname: "posix_dirname ''results/out.trx'' = ''results''"
  by (simp add: posix_eval)

lemma sample_filename:
  "getFilename (rnd sample_host) (MOCHA_REPORTER_FILE sample_host) (sample_options (Some ''results/out.trx'') e x)
     = Some ''results/out.trx''"
  by (simp add: getFilename_def sample_options_def or_str_def indexOf_def sample_host_def)

lemma sample_uuid: "uuid_v4 sample_host 0 = ''uuid-0''"
  by (simp add: sample_host_def dec.simps digit_char_def)

lemma sample_iso: "toISOString sample_time = ''2024-03-09T07:05:42.017Z''"
  by (simp add: toISOString_def sample_time_def date_str_def time_str_def year_str_def padStart_def
        dec.simps digit_char_def)

lemma sample_host_fields:
  "userName sample_host = ''alice''" "computerName sample_host = ''build01''" "cwd sample_host = ''/work''"
  "MOCHA_REPORTER_FILE sample_host = None" "path_sep sample_host = CHR ''/''"
  "path_join sample_host = posix_join" "path_dirname sample_host = posix_dirname"
  "fs_throws sample_host calls c = None" "testToTrx sample_host = sample_testToTrx"
  "toXml sample_host = sample_toXml"
  by (simp_all add: sample_host_def)

lemma sample_move:
  "move_attachments (sample_host\<lparr>fs_throws := g\<rparr>) ''results/out.trx'' [''shots/a.png'', ''shots/b.png'']
     (sample_testToTrx t c d ro) w =
   ((sample_testToTrx t c d ro)
      \<lparr>executionId := Some (uuid_v4 sample_host (uuid_calls w)),
       relativeResultsDirectory := Some (uuid_v4 sample_host (uuid_calls w)),
       resultFiles := Some [\<lparr>path = ''a.png''\<rparr>, \<lparr>path = ''b.png''\<rparr>]\<rparr>,
    snd (move_attachments (sample_host\<lparr>fs_throws := g\<rparr>) ''results/out.trx'' [''shots/a.png'', ''shots/b.png'']
     (sample_testToTrx t c d ro) w))"
proof -
  have "fst (move_attachments (sample_host\<lparr>fs_throws := g\<rparr>) ''results/out.trx'' [''shots/a.png'', ''shots/b.png'']
     (sample_testToTrx t c d ro) w) =
     (sample_testToTrx t c d ro)
      \<lparr>executionId := Some (uuid_v4 sample_host (uuid_calls w)),
       relativeResultsDirectory := Some (uuid_v4 sample_host (uuid_calls w)),
       resultFiles := Some [\<lparr>path = ''a.png''\<rparr>, \<lparr>path = ''b.png''\<rparr>]\<rparr>"
    using sample_base_names
    by (simp add: move_attachments_result base_name_def sample_testToTrx_def sample_host_def)
  then show ?thesis by (simp add: prod_eq_iff)
qed


lemma sample_run_fields:
  "results sample_run = []" "name sample_run = ''alice@build01 2024-03-09 07:05:42''"
  using sample_iso
  by (simp_all add: sample_run_def new_TestRun_def testRunName_def sample_host_fields indexOf_def
        substring_def replace_def)

lemma sample_collect:
  "collect_results sample_host (Some (sample_options (Some ''results/out.trx'') JUndefined JUndefined)) sample_tests
     sample_run (sample_world\<lparr>runner_testResults := x\<rparr>) =
      (Some ''results/out.trx'',
       sample_run\<lparr>results := [\<lparr>executionId = None, relativeResultsDirectory = None, resultFiles = None,
                                  outcome = ''passed'', rest = ''A''\<rparr>,
                                \<lparr>executionId = None, relativeResultsDirectory = None, resultFiles = None,
                                  outcome = ''pending'', rest = ''P''\<rparr>,
                                \<lparr>executionId = Some ''uuid-0'', relativeResultsDirectory = Some ''uuid-0'',
                                  resultFiles = Some [\<lparr>path = ''a.png''\<rparr>, \<lparr>path = ''b.png''\<rparr>],
                                  outcome = ''failed'', rest = ''B''\<rparr>]\<rparr>,
       0,
       \<lparr>fs_calls = [MkdirSync ''/work/results/out/In/uuid-0'' True,
                          CopyFileSync ''shots/a.png'' ''/work/results/out/In/uuid-0/a.png'',
                          CopyFileSync ''shots/b.png'' ''/work/results/out/In/uuid-0/b.png''],
           stdout = [mkdir_line ''/work/results/out/In/uuid-0'',
                      copy_line ''a.png'' ''/work/results/out/In/uuid-0'',
                      copy_line ''b.png'' ''/work/results/out/In/uuid-0''],
           console_warn = [], uuid_calls = 1, toXml_calls = 0, runner_testResults = x\<rparr>)"
proof -
  have f: "getFilename (rnd sample_host) (MOCHA_REPORTER_FILE sample_host)
            (sample_options (Some ''results/out.trx'') JUndefined JUndefined) = Some ''results/out.trx''"
    by (rule sample_filename)
  have m: "move_attachments sample_host ''results/out.trx'' [''shots/a.png'', ''shots/b.png'']
     \<lparr>executionId = None, relativeResultsDirectory = None, resultFiles = None,
                                  outcome = ''failed'', rest = ''B''\<rparr> (sample_world\<lparr>runner_testResults := x\<rparr>)
     = (\<lparr>executionId = Some ''uuid-0'', relativeResultsDirectory = Some ''uuid-0'',
                                  resultFiles = Some [\<lparr>path = ''a.png''\<rparr>, \<lparr>path = ''b.png''\<rparr>],
                                  outcome = ''failed'', rest = ''B''\<rparr>,
       \<lparr>fs_calls = [MkdirSync ''/work/results/out/In/uuid-0'' True,
                          CopyFileSync ''shots/a.png'' ''/work/results/out/In/uuid-0/a.png'',
                          CopyFileSync ''shots/b.png'' ''/work/results/out/In/uuid-0/b.png''],
           stdout = [mkdir_line ''/work/results/out/In/uuid-0'',
                      copy_line ''a.png'' ''/work/results/out/In/uuid-0'',
                      copy_line ''b.png'' ''/work/results/out/In/uuid-0''],
           console_warn = [], uuid_calls = 1, toXml_calls = 0, runner_testResults = x\<rparr>)"
    using sample_base_names sample_uuid sample_join_dir sample_join_a sample_join_b
    by (simp add: move_attachments_eq copy_attachment_eq split_beta sample_strip sample_world_def
          sample_host_fields Let_def execution_id_def)
  show ?thesis
    unfolding collect_results_def
    using m
    by (simp add: reporterOptions_or_empty_def sample_tests_def report_test_def strict_eq_true_def
        sample_test_def sample_options_def sample_testToTrx_def warn_excluded_def addResult_def
        sample_host_fields Let_def getFilename_def or_str_def indexOf_def sample_world_def
        sample_run_fields)
qed

lemma sample_accumulated: "map (objs sample_state) (tests sample_state) = sample_tests"
  by (simp add: sample_state_def sample_tests_def)

lemma sample_new_run:
  "new_TestRun sample_host (toISOString sample_time) (toISOString sample_time) (toISOString sample_time) = sample_run"
  by (simp add: sample_run_def)

lemma sample_stats_fields: "stats_start sample_stats = Some sample_time" "stats_end sample_stats = Some sample_time"
  by (simp_all add: sample_stats_def)

lemma sample_xml:
  "sample_toXml (sample_run\<lparr>results := [\<lparr>executionId = i1, relativeResultsDirectory = d1, resultFiles = f1,
                                  outcome = ''passed'', rest = ''A''\<rparr>,
                                \<lparr>executionId = i2, relativeResultsDirectory = d2, resultFiles = f2,
                                  outcome = ''pending'', rest = ''P''\<rparr>,
                                \<lparr>executionId = i3, relativeResultsDirectory = d3, resultFiles = f3,
                                  outcome = ''failed'', rest = ''B''\<rparr>]\<rparr>)
     = ''<TestRun name=alice@build01 2024-03-09 07:05:42><A:passed><P:pending><B:failed>''"
  by (simp add: sample_toXml_def sample_run_fields)

lemma sample_collect_stdout:
  "collect_results sample_host None sample_tests sample_run (sample_world\<lparr>runner_testResults := x\<rparr>) =
      (None,
       sample_run\<lparr>results := [\<lparr>executionId = None, relativeResultsDirectory = None, resultFiles = None,
                                  outcome = ''passed'', rest = ''A''\<rparr>,
                                \<lparr>executionId = None, relativeResultsDirectory = None, resultFiles = None,
                                  outcome = ''pending'', rest = ''P''\<rparr>,
                                \<lparr>executionId = None, relativeResultsDirectory = None, resultFiles = None,
                                  outcome = ''failed'', rest = ''B''\<rparr>]\<rparr>,
       0, sample_world\<lparr>runner_testResults := x\<rparr>)"
  unfolding collect_results_def
  by (simp add: reporterOptions_or_empty_def no_options_def sample_tests_def report_test_def strict_eq_true_def
        sample_test_def sample_testToTrx_def warn_excluded_def addResult_def
        sample_host_fields Let_def getFilename_def or_str_def sample_run_fields)

text \<open>
  The sample run with the output \<^verbatim>\<open>results/out.trx\<close> ends with the two calls for the report
  after the three calls for the attachments; without an output it prints the report and
  makes no file-system call.
\<close>

theorem report_written_once_witness:
  "fst (on_end sample_host (Some (sample_options (Some ''results/out.trx'') JUndefined JUndefined))
          sample_stats sample_time sample_state sample_world) = None
   \<and> fs_calls (snd (on_end sample_host (Some (sample_options (Some ''results/out.trx'') JUndefined JUndefined))
          sample_stats sample_time sample_state sample_world))
       = [MkdirSync ''/work/results/out/In/uuid-0'' True,
          CopyFileSync ''shots/a.png'' ''/work/results/out/In/uuid-0/a.png'',
          CopyFileSync ''shots/b.png'' ''/work/results/out/In/uuid-0/b.png'',
          MkdirSync ''results'' True,
          WriteFileSync ''results/out.trx''
            ''<TestRun name=alice@build01 2024-03-09 07:05:42><A:passed><P:pending><B:failed>'']
   \<and> toXml_calls (snd (on_end sample_host (Some (sample_options (Some ''results/out.trx'') JUndefined JUndefined))
          sample_stats sample_time sample_state sample_world)) = 1
   \<and> fst (on_end sample_host None sample_stats sample_time sample_state sample_world) = None
   \<and> fs_calls (snd (on_end sample_host None sample_stats sample_time sample_state sample_world)) = []
   \<and> stdout (snd (on_end sample_host None sample_stats sample_time sample_state sample_world))
       = [''<TestRun name=alice@build01 2024-03-09 07:05:42><A:passed><P:pending><B:failed>'']
   \<and> toXml_calls (snd (on_end sample_host None sample_stats sample_time sample_state sample_world)) = 1"
proof -
  let ?x = "Some (sample_stats, sample_tests)"
  note c1 = sample_collect [of ?x]
  note c2 = sample_collect_stdout [of ?x]
  note 1 = report_written_once [where h = sample_host and st = sample_stats and s = sample_time
        and e = sample_time and rs = sample_state and now = sample_time and w = sample_world
        and opts = "Some (sample_options (Some ''results/out.trx'') JUndefined JUndefined)"
        and f = "''results/out.trx''", OF sample_stats_fields,
        unfolded sample_accumulated sample_new_run, OF c1]
  note 2 = report_written_once [where h = sample_host and st = sample_stats and s = sample_time
        and e = sample_time and rs = sample_state and now = sample_time and w = sample_world
        and opts = None and f = "[]", OF sample_stats_fields,
        unfolded sample_accumulated sample_new_run, OF c2]
  from 1 2 sample_dirname show ?thesis
    by (simp add: sample_host_fields sample_xml sample_world_def)
qed

lemma sample_collect_no_results_dir:
  "collect_results (sample_host\<lparr>fs_throws := no_results_dir\<rparr>)
     (Some (sample_options (Some ''results/out.trx'') JUndefined JUndefined)) sample_tests
     sample_run (sample_world\<lparr>runner_testResults := x\<rparr>) =
      (Some ''results/out.trx'',
       sample_run\<lparr>results := [\<lparr>executionId = None, relativeResultsDirectory = None, resultFiles = None,
                                  outcome = ''passed'', rest = ''A''\<rparr>,
                                \<lparr>executionId = None, relativeResultsDirectory = None, resultFiles = None,
                                  outcome = ''pending'', rest = ''P''\<rparr>,
                                \<lparr>executionId = Some ''uuid-0'', relativeResultsDirectory = Some ''uuid-0'',
                                  resultFiles = Some [\<lparr>path = ''a.png''\<rparr>, \<lparr>path = ''b.png''\<rparr>],
                                  outcome = ''failed'', rest = ''B''\<rparr>]\<rparr>,
       0,
       \<lparr>fs_calls = [MkdirSync ''/work/results/out/In/uuid-0'' True,
                          CopyFileSync ''shots/a.png'' ''/work/results/out/In/uuid-0/a.png'',
                          CopyFileSync ''shots/b.png'' ''/work/results/out/In/uuid-0/b.png''],
           stdout = [mkdir_line ''/work/results/out/In/uuid-0'',
                     copy_line ''a.png'' ''/work/results/out/In/uuid-0'',
                     copy_line ''b.png'' ''/work/results/out/In/uuid-0''],
           console_warn = [], uuid_calls = 1, toXml_calls = 0, runner_testResults = x\<rparr>)"
proof -
  let ?h = "sample_host\<lparr>fs_throws := no_results_dir\<rparr>"
  have b: "base_name ?h ''shots/a.png'' = ''a.png''" "base_name ?h ''shots/b.png'' = ''b.png''"
    using sample_base_names by (simp_all add: base_name_def)
  have m: "move_attachments ?h ''results/out.trx'' [''shots/a.png'', ''shots/b.png'']
     \<lparr>executionId = None, relativeResultsDirectory = None, resultFiles = None,
                                  outcome = ''failed'', rest = ''B''\<rparr> (sample_world\<lparr>runner_testResults := x\<rparr>)
     = (\<lparr>executionId = Some ''uuid-0'', relativeResultsDirectory = Some ''uuid-0'',
                                  resultFiles = Some [\<lparr>path = ''a.png''\<rparr>, \<lparr>path = ''b.png''\<rparr>],
                                  outcome = ''failed'', rest = ''B''\<rparr>,
       \<lparr>fs_calls = [MkdirSync ''/work/results/out/In/uuid-0'' True,
                          CopyFileSync ''shots/a.png'' ''/work/results/out/In/uuid-0/a.png'',
                          CopyFileSync ''shots/b.png'' ''/work/results/out/In/uuid-0/b.png''],
           stdout = [mkdir_line ''/work/results/out/In/uuid-0'',
                     copy_line ''a.png'' ''/work/results/out/In/uuid-0'',
                     copy_line ''b.png'' ''/work/results/out/In/uuid-0''],
           console_warn = [], uuid_calls = 1, toXml_calls = 0, runner_testResults = x\<rparr>)"
    using b sample_uuid sample_join_dir sample_join_a sample_join_b
    by (simp add: move_attachments_eq copy_attachment_eq split_beta sample_strip sample_world_def
          sample_host_fields Let_def)
  show ?thesis
    unfolding collect_results_def
    using m
    by (simp add: reporterOptions_or_empty_def sample_tests_def report_test_def strict_eq_true_def
        sample_test_def sample_options_def sample_testToTrx_def warn_excluded_def addResult_def
        sample_host_fields Let_def getFilename_def or_str_def indexOf_def sample_world_def
        sample_run_fields)
qed

text \<open>
  Claim C6 as stated fails when a step before the serialization throws. With the output
  \<^verbatim>\<open>results/out.trx\<close> resolved and a file system that refuses to create \<^verbatim>\<open>results\<close>, the
  listener ends with the exception of \<^verbatim>\<open>mkdirSync\<close>: \<^verbatim>\<open>toXml\<close> is never called and no
  \<^verbatim>\<open>writeFileSync\<close> is made. With statistics that have no timestamps and no output, the
  listener ends with a \<^verbatim>\<open>TypeError\<close>: \<^verbatim>\<open>toXml\<close> is never called and nothing is written to
  standard output.
\<close>

theorem report_lost_when_directory_refused:
  "getFilename (rnd sample_host) (MOCHA_REPORTER_FILE sample_host)
       (sample_options (Some ''results/out.trx'') JUndefined JUndefined) = Some ''results/out.trx''
   \<and> fst (on_end (sample_host\<lparr>fs_throws := no_results_dir\<rparr>)
            (Some (sample_options (Some ''results/out.trx'') JUndefined JUndefined))
            sample_stats sample_time sample_state sample_world) = Some (FsError ''Error: EACCES'')
   \<and> toXml_calls (snd (on_end (sample_host\<lparr>fs_throws := no_results_dir\<rparr>)
            (Some (sample_options (Some ''results/out.trx'') JUndefined JUndefined))
            sample_stats sample_time sample_state sample_world)) = 0
   \<and> fs_calls (snd (on_end (sample_host\<lparr>fs_throws := no_results_dir\<rparr>)
            (Some (sample_options (Some ''results/out.trx'') JUndefined JUndefined))
            sample_stats sample_time sample_state sample_world))
       = [MkdirSync ''/work/results/out/In/uuid-0'' True,
          CopyFileSync ''shots/a.png'' ''/work/results/out/In/uuid-0/a.png'',
          CopyFileSync ''shots/b.png'' ''/work/results/out/In/uuid-0/b.png'',
          MkdirSync ''results'' True]
   \<and> fst (on_end sample_host None stats_without_times sample_time sample_state sample_world)
       = Some (TypeError ''start'')
   \<and> toXml_calls (snd (on_end sample_host None stats_without_times sample_time sample_state sample_world)) = 0
   \<and> stdout (snd (on_end sample_host None stats_without_times sample_time sample_state sample_world)) = []"
proof -
  let ?h = "sample_host\<lparr>fs_throws := no_results_dir\<rparr>"
  let ?o = "Some (sample_options (Some ''results/out.trx'') JUndefined JUndefined)"
  have r: "new_TestRun ?h (toISOString sample_time) (toISOString sample_time) (toISOString sample_time) = sample_run"
    by (simp add: sample_run_def new_TestRun_def testRunName_def)
  have oe: "on_end ?h ?o sample_stats sample_time sample_state sample_world
      = write_report ?h (Some ''results/out.trx'')
          (sample_run\<lparr>results := [\<lparr>executionId = None, relativeResultsDirectory = None, resultFiles = None,
                                  outcome = ''passed'', rest = ''A''\<rparr>,
                                \<lparr>executionId = None, relativeResultsDirectory = None, resultFiles = None,
                                  outcome = ''pending'', rest = ''P''\<rparr>,
                                \<lparr>executionId = Some ''uuid-0'', relativeResultsDirectory = Some ''uuid-0'',
                                  resultFiles = Some [\<lparr>path = ''a.png''\<rparr>, \<lparr>path = ''b.png''\<rparr>],
                                  outcome = ''failed'', rest = ''B''\<rparr>]\<rparr>)
          \<lparr>fs_calls = [MkdirSync ''/work/results/out/In/uuid-0'' True,
                          CopyFileSync ''shots/a.png'' ''/work/results/out/In/uuid-0/a.png'',
                          CopyFileSync ''shots/b.png'' ''/work/results/out/In/uuid-0/b.png''],
           stdout = [mkdir_line ''/work/results/out/In/uuid-0'',
                     copy_line ''a.png'' ''/work/results/out/In/uuid-0'',
                     copy_line ''b.png'' ''/work/results/out/In/uuid-0''],
           console_warn = [], uuid_calls = 1, toXml_calls = 0,
           runner_testResults = Some (sample_stats, sample_tests)\<rparr>"
    by (rule on_end_eq [where h = ?h and rs = sample_state and now = sample_time and w = sample_world
          and opts = ?o, OF sample_stats_fields, unfolded sample_accumulated r,
          OF sample_collect_no_results_dir])
  have 1: "fst (on_end ?h ?o sample_stats sample_time sample_state sample_world) = Some (FsError ''Error: EACCES'')"
    and 2: "toXml_calls (snd (on_end ?h ?o sample_stats sample_time sample_state sample_world)) = 0"
    and 3: "fs_calls (snd (on_end ?h ?o sample_stats sample_time sample_state sample_world))
       = [MkdirSync ''/work/results/out/In/uuid-0'' True,
          CopyFileSync ''shots/a.png'' ''/work/results/out/In/uuid-0/a.png'',
          CopyFileSync ''shots/b.png'' ''/work/results/out/In/uuid-0/b.png'',
          MkdirSync ''results'' True]"
    unfolding oe using sample_dirname
    by (simp_all add: write_report_def fs_do_def sample_host_fields)
  have 4: "on_end sample_host None stats_without_times sample_time sample_state sample_world
      = (Some (TypeError ''start''),
         sample_world\<lparr>runner_testResults := Some (stats_without_times, map (objs sample_state) (tests sample_state))\<rparr>)"
    by (simp add: on_end_def stats_without_times_def Let_def)
  have 5: "fst (on_end sample_host None stats_without_times sample_time sample_state sample_world)
       = Some (TypeError ''start'')"
    and 6: "toXml_calls (snd (on_end sample_host None stats_without_times sample_time sample_state sample_world)) = 0"
    and 7: "stdout (snd (on_end sample_host None stats_without_times sample_time sample_state sample_world)) = []"
    unfolding 4 by (simp_all add: sample_world_def)
  from 1 2 3 5 6 7 sample_filename [of JUndefined JUndefined] show ?thesis
    by blast
qed

section \<open>Failures while relocating attachments\<close>

lemma on_end_no_exception:
  assumes "stats_start st = Some s" "stats_end st = Some e"
    and ok: "\<And>f. getFilename (rnd h) (MOCHA_REPORTER_FILE h) (reporterOptions_or_empty opts) = Some f \<Longrightarrow>
               (\<forall>calls. fs_throws h calls (MkdirSync (path_dirname h f) True) = None)
               \<and> (\<forall>calls x. fs_throws h calls (WriteFileSync f x) = None)"
  shows "fst (on_end h opts st now rs w) = None"
proof -
  let ?c = "collect_results h opts (map (objs rs) (tests rs))
           (new_TestRun h (toISOString now) (toISOString s) (toISOString e))
           (w\<lparr>runner_testResults := Some (st, map (objs rs) (tests rs))\<rparr>)"
  obtain fn run1 n w1 where c: "?c = (fn, run1, n, w1)"
    by (cases ?c) auto
  note oe = on_end_eq [OF assms(1,2) c]
  note fn = collect_results_world(4) [OF c]
  show ?thesis
  proof (cases "truthy_str fn")
    case False
    then show ?thesis using write_report_stdout [OF False, of h run1 w1] oe by simp
  next
    case True
    then obtain f where f: "fn = Some f" "f \<noteq> []" by (cases fn) auto
    from ok [of f] f fn have
      "fs_throws h (fs_calls w1) (MkdirSync (path_dirname h f) True) = None"
      "fs_throws h (fs_calls w1 @ [MkdirSync (path_dirname h f) True]) (WriteFileSync f (toXml h run1)) = None"
      by simp_all
    from write_report_file [OF f(2) this] oe f show ?thesis by simp
  qed
qed

lemma collect_results_fs_independent:
  assumes "collect_results h opts ts run0 w = (fn, run1, n, w1)"
  shows "\<exists>v1. collect_results (h\<lparr>fs_throws := g\<rparr>) opts ts run0 w = (fn, run1, n, v1)"
proof -
  from assms obtain w0 where
    fn: "fn = getFilename (rnd h) (MOCHA_REPORTER_FILE h) (reporterOptions_or_empty opts)"
    and f: "fold (report_test h (reporterOptions_or_empty opts) fn) ts (run0, 0, w) = (run1, n, w0)"
    by (rule collect_resultsD)
  from fold_report_fs_independent [OF refl f, of g] obtain v0 where
    "fold (report_test (h\<lparr>fs_throws := g\<rparr>) (reporterOptions_or_empty opts) fn) ts (run0, 0, w) = (run1, n, v0)"
    by blast
  with fn show ?thesis by (simp add: collect_results_def Let_def)
qed

text \<open>
  Claim C5. For the part of the listener that relocates attachments (everything before the
  report is written): if every earlier file-system call that threw has its error line on
  standard output, then so has every call afterwards, where the line of a failed
  \<^verbatim>\<open>mkdirSync\<close> holds the directory and the error and the line of a failed \<^verbatim>\<open>copyFileSync\<close>
  holds the source, the target and the error. The file name, the report with all its result
  entries and the excluded count are the same on any other file system, in particular on one
  where no call throws. Whatever the calls for the attachments throw, the listener ends
  without an exception when the statistics have their timestamps and the two calls that write
  the report do not throw.
\<close>

theorem attachment_failures_tolerated:
  assumes "collect_results h opts ts run0 w = (fn, run1, n, w1)"
  shows "(errors_logged h w \<longrightarrow> errors_logged h w1)
         \<and> (\<exists>v1. collect_results (h\<lparr>fs_throws := g\<rparr>) opts ts run0 w = (fn, run1, n, v1))
         \<and> (stats_start st = Some s \<and> stats_end st = Some e
              \<and> (\<forall>f. fn = Some f \<longrightarrow>
                     (\<forall>calls. fs_throws h calls (MkdirSync (path_dirname h f) True) = None)
                     \<and> (\<forall>calls x. fs_throws h calls (WriteFileSync f x) = None))
            \<longrightarrow> fst (on_end h opts st now rs w') = None)"
proof (intro conjI impI)
  assume "errors_logged h w"
  then show "errors_logged h w1" by (rule collect_results_world(3) [OF assms])
next
  show "\<exists>v1. collect_results (h\<lparr>fs_throws := g\<rparr>) opts ts run0 w = (fn, run1, n, v1)"
    by (rule collect_results_fs_independent [OF assms])
next
  assume a: "stats_start st = Some s \<and> stats_end st = Some e
              \<and> (\<forall>f. fn = Some f \<longrightarrow>
                     (\<forall>calls. fs_throws h calls (MkdirSync (path_dirname h f) True) = None)
                     \<and> (\<forall>calls x. fs_throws h calls (WriteFileSync f x) = None))"
  note fn = collect_results_world(4) [OF assms]
  show "fst (on_end h opts st now rs w') = None"
  proof (rule on_end_no_exception)
    from a show "stats_start st = Some s" "stats_end st = Some e" by simp_all
    fix f
    assume "getFilename (rnd h) (MOCHA_REPORTER_FILE h) (reporterOptions_or_empty opts) = Some f"
    with fn a show "(\<forall>calls. fs_throws h calls (MkdirSync (path_dirname h f) True) = None)
               \<and> (\<forall>calls x. fs_throws h calls (WriteFileSync f x) = None)"
      by simp
  qed
qed

lemma sample_collect_refusing:
  "collect_results (sample_host\<lparr>fs_throws := refusing\<rparr>)
     (Some (sample_options (Some ''results/out.trx'') JUndefined JUndefined)) sample_tests
     sample_run sample_world =
      (Some ''results/out.trx'',
       sample_run\<lparr>results := [\<lparr>executionId = None, relativeResultsDirectory = None, resultFiles = None,
                                  outcome = ''passed'', rest = ''A''\<rparr>,
                                \<lparr>executionId = None, relativeResultsDirectory = None, resultFiles = None,
                                  outcome = ''pending'', rest = ''P''\<rparr>,
                                \<lparr>executionId = Some ''uuid-0'', relativeResultsDirectory = Some ''uuid-0'',
                                  resultFiles = Some [\<lparr>path = ''a.png''\<rparr>, \<lparr>path = ''b.png''\<rparr>],
                                  outcome = ''failed'', rest = ''B''\<rparr>]\<rparr>,
       0,
       \<lparr>fs_calls = [MkdirSync ''/work/results/out/In/uuid-0'' True,
                          CopyFileSync ''shots/a.png'' ''/work/results/out/In/uuid-0/a.png'',
                          CopyFileSync ''shots/b.png'' ''/work/results/out/In/uuid-0/b.png''],
           stdout = [mkdir_line ''/work/results/out/In/uuid-0'',
                     mkdir_error_line ''/work/results/out/In/uuid-0'' ''Error: EACCES'',
                     copy_line ''a.png'' ''/work/results/out/In/uuid-0'',
                     copy_line ''b.png'' ''/work/results/out/In/uuid-0'',
                     copy_error_line ''shots/b.png'' ''/work/results/out/In/uuid-0/b.png'' ''Error: ENOENT''],
           console_warn = [], uuid_calls = 1, toXml_calls = 0, runner_testResults = None\<rparr>)"
proof -
  let ?h = "sample_host\<lparr>fs_throws := refusing\<rparr>"
  have b: "base_name ?h ''shots/a.png'' = ''a.png''" "base_name ?h ''shots/b.png'' = ''b.png''"
    using sample_base_names by (simp_all add: base_name_def)
  have m: "move_attachments ?h ''results/out.trx'' [''shots/a.png'', ''shots/b.png'']
     \<lparr>executionId = None, relativeResultsDirectory = None, resultFiles = None,
                                  outcome = ''failed'', rest = ''B''\<rparr> sample_world
     = (\<lparr>executionId = Some ''uuid-0'', relativeResultsDirectory = Some ''uuid-0'',
                                  resultFiles = Some [\<lparr>path = ''a.png''\<rparr>, \<lparr>path = ''b.png''\<rparr>],
                                  outcome = ''failed'', rest = ''B''\<rparr>,
       \<lparr>fs_calls = [MkdirSync ''/work/results/out/In/uuid-0'' True,
                          CopyFileSync ''shots/a.png'' ''/work/results/out/In/uuid-0/a.png'',
                          CopyFileSync ''shots/b.png'' ''/work/results/out/In/uuid-0/b.png''],
           stdout = [mkdir_line ''/work/results/out/In/uuid-0'',
                     mkdir_error_line ''/work/results/out/In/uuid-0'' ''Error: EACCES'',
                     copy_line ''a.png'' ''/work/results/out/In/uuid-0'',
                     copy_line ''b.png'' ''/work/results/out/In/uuid-0'',
                     copy_error_line ''shots/b.png'' ''/work/results/out/In/uuid-0/b.png'' ''Error: ENOENT''],
           console_warn = [], uuid_calls = 1, toXml_calls = 0, runner_testResults = None\<rparr>)"
    using b sample_uuid sample_join_dir sample_join_a sample_join_b
    by (simp add: move_attachments_eq copy_attachment_eq split_beta sample_strip sample_world_def
          sample_host_fields Let_def)
  show ?thesis
    unfolding collect_results_def
    using m
    by (simp add: reporterOptions_or_empty_def sample_tests_def report_test_def strict_eq_true_def
        sample_test_def sample_options_def sample_testToTrx_def warn_excluded_def addResult_def
        sample_host_fields Let_def getFilename_def or_str_def indexOf_def sample_world_def
        sample_run_fields)
qed

text \<open>
  On the file system that refuses the attachment directory and one of the two copies, both
  errors are on standard output, the three entries are those of the file system that refuses
  nothing, and the listener ends without an exception.
\<close>

theorem attachment_failures_tolerated_witness:
  "(case collect_results (sample_host\<lparr>fs_throws := refusing\<rparr>)
            (Some (sample_options (Some ''results/out.trx'') JUndefined JUndefined)) sample_tests
            sample_run sample_world of
      (fn, run1, n, w1) \<Rightarrow>
        errors_logged (sample_host\<lparr>fs_throws := refusing\<rparr>) w1
        \<and> mkdir_error_line ''/work/results/out/In/uuid-0'' ''Error: EACCES'' \<in> set (stdout w1)
        \<and> copy_error_line ''shots/b.png'' ''/work/results/out/In/uuid-0/b.png'' ''Error: ENOENT'' \<in> set (stdout w1)
        \<and> map outcome (results run1) = [''passed'', ''pending'', ''failed'']
        \<and> (\<exists>v1. collect_results sample_host
                    (Some (sample_options (Some ''results/out.trx'') JUndefined JUndefined)) sample_tests
                    sample_run sample_world = (fn, run1, n, v1)))
   \<and> fst (on_end (sample_host\<lparr>fs_throws := refusing\<rparr>)
            (Some (sample_options (Some ''results/out.trx'') JUndefined JUndefined))
            sample_stats sample_time sample_state sample_world) = None"
proof -
  have e: "errors_logged (sample_host\<lparr>fs_throws := refusing\<rparr>) sample_world"
    by (simp add: errors_logged_def sample_world_def)
  have h: "sample_host\<lparr>fs_throws := refusing, fs_throws := fs_throws sample_host\<rparr> = sample_host"
    by simp
  from attachment_failures_tolerated [OF sample_collect_refusing,
      where g = "fs_throws sample_host" and st = sample_stats and s = sample_time and e = sample_time
        and now = sample_time and rs = sample_state and w' = sample_world]
    e sample_dirname
  show ?thesis
    unfolding h
    by (simp add: sample_collect_refusing sample_stats_fields sample_host_fields)
qed

section \<open>A path with several tokens\<close>

lemma collect_results_filename:
  "fst (collect_results h opts ts run0 w)
     = getFilename (rnd h) (MOCHA_REPORTER_FILE h) (reporterOptions_or_empty opts)"
  using collect_results_world(4) [OF collect_results_surj] .

lemma on_end_writes:
  assumes "stats_start st = Some s" "stats_end st = Some e"
    and "getFilename (rnd h) (MOCHA_REPORTER_FILE h) (reporterOptions_or_empty opts) = Some f" "f \<noteq> []"
    and "\<forall>calls. fs_throws h calls (MkdirSync (path_dirname h f) True) = None"
    and "\<forall>calls x. fs_throws h calls (WriteFileSync f x) = None"
  shows "\<exists>x. last (fs_calls (snd (on_end h opts st now rs w))) = WriteFileSync f x"
proof -
  let ?c = "collect_results h opts (map (objs rs) (tests rs))
           (new_TestRun h (toISOString now) (toISOString s) (toISOString e))
           (w\<lparr>runner_testResults := Some (st, map (objs rs) (tests rs))\<rparr>)"
  obtain fn run1 n w1 where c: "?c = (fn, run1, n, w1)"
    by (cases ?c) auto
  note oe = on_end_eq [OF assms(1,2) c]
  from collect_results_world(4) [OF c] assms(3) have fn: "fn = Some f" by simp
  from assms(5,6) have
      "fs_throws h (fs_calls w1) (MkdirSync (path_dirname h f) True) = None"
      "fs_throws h (fs_calls w1 @ [MkdirSync (path_dirname h f) True]) (WriteFileSync f (toXml h run1)) = None"
    by simp_all
  from write_report_file [OF assms(4) this] oe fn show ?thesis by simp
qed

lemma startsWith_before_token:
  "set pat \<inter> set tok = {} \<Longrightarrow> tok \<noteq> [] \<Longrightarrow> pat \<noteq> [] \<Longrightarrow>
   startsWith (x @ tok @ c) pat = startsWith x pat"
proof (induction x arbitrary: pat)
  case Nil
  then show ?case by (cases tok; cases pat) auto
next
  case (Cons a xs)
  then obtain p ps where p: "pat = p # ps" by (cases pat) auto
  show ?case
  proof (cases ps)
    case Nil
    with p show ?thesis by simp
  next
    case (Cons q qs)
    with p Cons.prems have "startsWith (xs @ tok @ c) ps = startsWith xs ps"
      by (intro Cons.IH) auto
    with p show ?thesis by simp
  qed
qed

lemma first_index_through_token:
  "set pat \<inter> set t = {} \<Longrightarrow> pat \<noteq> [] \<Longrightarrow>
   first_index (t @ c) pat = map_option (\<lambda>j. length t + j) (first_index c pat)"
proof (induction t)
  case Nil
  then show ?case by (simp add: option.map_ident)
next
  case (Cons a ts)
  then obtain p ps where p: "pat = p # ps" by (cases pat) auto
  with Cons.prems have "a \<noteq> p" by auto
  with p have "\<not> startsWith (a # ts @ c) pat" by simp
  moreover from Cons have "first_index (ts @ c) pat = map_option (\<lambda>j. length ts + j) (first_index c pat)"
    by auto
  ultimately show ?case by (simp add: option.map_comp comp_def)
qed

lemma first_index_around_token:
  "set pat \<inter> set tok = {} \<Longrightarrow> tok \<noteq> [] \<Longrightarrow> pat \<noteq> [] \<Longrightarrow>
   first_index (x @ tok @ c) pat =
     (case first_index x pat of
        Some i \<Rightarrow> Some i
      | None \<Rightarrow> map_option (\<lambda>j. length x + length tok + j) (first_index c pat))"
proof (induction x)
  case Nil
  then show ?case by (simp add: first_index_through_token)
next
  case (Cons a xs)
  have s: "startsWith ((a # xs) @ tok @ c) pat = startsWith (a # xs) pat"
    using Cons.prems by (rule startsWith_before_token)
  show ?case
  proof (cases "startsWith (a # xs) pat")
    case True
    with s show ?thesis by simp
  next
    case False
    with s Cons show ?thesis
      by (cases "first_index xs pat"; cases "first_index c pat") simp_all
  qed
qed

lemma replace_around_token:
  assumes "set pat \<inter> set tok = {}" "tok \<noteq> []" "pat \<noteq> []"
  shows "replace (x @ tok @ c) pat rep = replace x pat rep @ tok @ c
         \<or> replace (x @ tok @ c) pat rep = x @ tok @ replace c pat rep"
proof (cases "first_index x pat")
  case (Some i)
  from first_index_SomeD [OF Some] obtain b where "x = take i x @ pat @ b" ..
  then have "length x = length (take i x @ pat @ b)" by simp
  then have "i + length pat \<le> length x"
    using assms(3) by (auto simp: min_def split: if_splits)
  with Some have "replace (x @ tok @ c) pat rep = replace x pat rep @ tok @ c"
    by (simp add: replace_def first_index_around_token [OF assms])
  then show ?thesis ..
next
  case None
  then have "replace (x @ tok @ c) pat rep = x @ tok @ replace c pat rep"
    by (cases "first_index c pat") (simp_all add: replace_def first_index_around_token [OF assms] add.assoc)
  then show ?thesis ..
qed

lemma report_test_calls:
  assumes "report_test h ro (Some f) t (run0, n, w) = (run1, n1, w1)"
  shows "set (fs_calls w) \<subseteq> set (fs_calls w1)"
    and "f \<noteq> [] \<Longrightarrow> \<not> excluded ro t \<Longrightarrow> attachments t = Some as \<Longrightarrow> as \<noteq> [] \<Longrightarrow>
         \<exists>rrd. MkdirSync (path_join h [cwd h, replace f ''.trx'' [], ''In'', rrd]) True \<in> set (fs_calls w1)"
    and "MkdirSync p r \<in> set (fs_calls w1) \<Longrightarrow>
         MkdirSync p r \<in> set (fs_calls w) \<or> (\<exists>rrd. p = path_join h [cwd h, replace f ''.trx'' [], ''In'', rrd])"
proof -
  consider (ex) "excluded ro t"
    | (plain) "\<not> excluded ro t" "relocation (Some f) (attachments t) = None"
    | (moved) f' as' where "\<not> excluded ro t" "relocation (Some f) (attachments t) = Some (f', as')"
    by (cases "relocation (Some f) (attachments t)") auto
  note cases = this
  show "set (fs_calls w) \<subseteq> set (fs_calls w1)"
    using assms
    by (cases rule: cases)
       (auto simp: report_test_excluded report_test_plain report_test_moved move_attachments_calls)
  show "\<exists>rrd. MkdirSync (path_join h [cwd h, replace f ''.trx'' [], ''In'', rrd]) True \<in> set (fs_calls w1)"
    if "f \<noteq> []" "\<not> excluded ro t" "attachments t = Some as" "as \<noteq> []"
  proof -
    from that have rel: "relocation (Some f) (attachments t) = Some (f, as)" by simp
    from report_test_moved [OF that(2) rel, of h run0 n w] assms
    have "w1 = snd (move_attachments h f as (testToTrx h t (computerName h) (cwd h) ro) w)" by simp
    then show ?thesis by (auto simp: move_attachments_calls)
  qed
  show "MkdirSync p r \<in> set (fs_calls w) \<or> (\<exists>rrd. p = path_join h [cwd h, replace f ''.trx'' [], ''In'', rrd])"
    if "MkdirSync p r \<in> set (fs_calls w1)"
    using assms that
    by (cases rule: cases)
       (auto simp: report_test_excluded report_test_plain report_test_moved move_attachments_calls
          relocation_Some)
qed

lemma fold_report_calls:
  "fold (report_test h ro (Some f)) ts (run0, n, w) = (run1, n1, w1) \<Longrightarrow>
   set (fs_calls w) \<subseteq> set (fs_calls w1)
   \<and> (f \<noteq> [] \<longrightarrow> (\<forall>t \<in> set ts. \<not> excluded ro t \<and> (\<exists>as. attachments t = Some as \<and> as \<noteq> []) \<longrightarrow>
         (\<exists>rrd. MkdirSync (path_join h [cwd h, replace f ''.trx'' [], ''In'', rrd]) True \<in> set (fs_calls w1))))
   \<and> (\<forall>p r. MkdirSync p r \<in> set (fs_calls w1) \<longrightarrow>
         MkdirSync p r \<in> set (fs_calls w) \<or> (\<exists>rrd. p = path_join h [cwd h, replace f ''.trx'' [], ''In'', rrd]))"
proof (induction ts arbitrary: run0 n w)
  case Nil
  then show ?case by simp
next
  case (Cons t ts)
  obtain run' n' w' where step: "report_test h ro (Some f) t (run0, n, w) = (run', n', w')"
    by (cases "report_test h ro (Some f) t (run0, n, w)") auto
  with Cons.prems have "fold (report_test h ro (Some f)) ts (run', n', w') = (run1, n1, w1)" by simp
  note ih = Cons.IH [OF this]
  note st = report_test_calls [OF step]
  have 1: "set (fs_calls w) \<subseteq> set (fs_calls w1)" using ih st(1) by blast
  have 2: "\<exists>rrd. MkdirSync (path_join h [cwd h, replace f ''.trx'' [], ''In'', rrd]) True \<in> set (fs_calls w1)"
    if "f \<noteq> []" "u \<in> set (t # ts)" "\<not> excluded ro u" "attachments u = Some as" "as \<noteq> []" for u as
  proof (cases "u = t")
    case True
    with st(2) [OF that(1) _ _ that(5)] that(3,4) ih show ?thesis by blast
  next
    case False
    with that have "u \<in> set ts" by simp
    with ih that show ?thesis by blast
  qed
  have 3: "MkdirSync p r \<in> set (fs_calls w) \<or> (\<exists>rrd. p = path_join h [cwd h, replace f ''.trx'' [], ''In'', rrd])"
    if "MkdirSync p r \<in> set (fs_calls w1)" for p r
    using ih st(3) that by blast
  from 1 2 3 show ?case by blast
qed

lemma write_report_calls:
  "set (fs_calls w) \<subseteq> set (fs_calls (snd (write_report h fn run0 w)))"
  "MkdirSync p r \<in> set (fs_calls (snd (write_report h fn run0 w))) \<Longrightarrow>
   MkdirSync p r \<in> set (fs_calls w) \<or> (\<exists>f. fn = Some f \<and> p = path_dirname h f)"
  by (auto simp: write_report_def fs_do_def stdout_write_def Let_def split: option.splits if_splits)

lemma on_end_attachment_dirs:
  assumes "stats_start st = Some s" "stats_end st = Some e"
    and "getFilename (rnd h) (MOCHA_REPORTER_FILE h) (reporterOptions_or_empty opts) = Some f" "f \<noteq> []"
  shows "\<forall>t \<in> set (map (objs rs) (tests rs)).
           \<not> excluded (reporterOptions_or_empty opts) t \<and> (\<exists>as. attachments t = Some as \<and> as \<noteq> []) \<longrightarrow>
           (\<exists>rrd. MkdirSync (path_join h [cwd h, replace f ''.trx'' [], ''In'', rrd]) True
                    \<in> set (fs_calls (snd (on_end h opts st now rs w))))"
    and "\<forall>p r. MkdirSync p r \<in> set (fs_calls (snd (on_end h opts st now rs w))) \<longrightarrow>
           MkdirSync p r \<in> set (fs_calls w) \<or> p = path_dirname h f
           \<or> (\<exists>rrd. p = path_join h [cwd h, replace f ''.trx'' [], ''In'', rrd])"
proof -
  let ?ts = "map (objs rs) (tests rs)"
  let ?w = "w\<lparr>runner_testResults := Some (st, ?ts)\<rparr>"
  let ?c = "collect_results h opts ?ts (new_TestRun h (toISOString now) (toISOString s) (toISOString e)) ?w"
  obtain fn run1 n w1 where c: "?c = (fn, run1, n, w1)"
    by (cases ?c) auto
  note oe = on_end_eq [OF assms(1,2) c]
  from c obtain w0 where
    fn: "fn = getFilename (rnd h) (MOCHA_REPORTER_FILE h) (reporterOptions_or_empty opts)"
    and f: "fold (report_test h (reporterOptions_or_empty opts) fn) ?ts
              (new_TestRun h (toISOString now) (toISOString s) (toISOString e), 0, ?w) = (run1, n, w0)"
    and w1: "w1 = warn_excluded (reporterOptions_or_empty opts) n w0"
    by (rule collect_resultsD)
  from fn assms(3) have fn': "fn = Some f" by simp
  note fc = fold_report_calls [OF f [unfolded fn']]
  have k: "fs_calls w1 = fs_calls w0" by (simp add: w1 warn_excluded_keeps)
  note wc = write_report_calls [where w = w1 and h = h and fn = fn and ?run0.0 = run1]
  show "\<forall>t \<in> set ?ts.
           \<not> excluded (reporterOptions_or_empty opts) t \<and> (\<exists>as. attachments t = Some as \<and> as \<noteq> []) \<longrightarrow>
           (\<exists>rrd. MkdirSync (path_join h [cwd h, replace f ''.trx'' [], ''In'', rrd]) True
                    \<in> set (fs_calls (snd (on_end h opts st now rs w))))"
  proof (intro ballI impI)
    fix t
    assume t: "t \<in> set ?ts"
      and a: "\<not> excluded (reporterOptions_or_empty opts) t \<and> (\<exists>as. attachments t = Some as \<and> as \<noteq> [])"
    from fc assms(4) t a obtain rrd where
      "MkdirSync (path_join h [cwd h, replace f ''.trx'' [], ''In'', rrd]) True \<in> set (fs_calls w0)"
      by blast
    with wc(1) k have
      "MkdirSync (path_join h [cwd h, replace f ''.trx'' [], ''In'', rrd]) True
         \<in> set (fs_calls (snd (write_report h fn run1 w1)))"
      by auto
    then show "\<exists>rrd. MkdirSync (path_join h [cwd h, replace f ''.trx'' [], ''In'', rrd]) True
                    \<in> set (fs_calls (snd (on_end h opts st now rs w)))"
      unfolding oe by blast
  qed
  show "\<forall>p r. MkdirSync p r \<in> set (fs_calls (snd (on_end h opts st now rs w))) \<longrightarrow>
           MkdirSync p r \<in> set (fs_calls w) \<or> p = path_dirname h f
           \<or> (\<exists>rrd. p = path_join h [cwd h, replace f ''.trx'' [], ''In'', rrd])"
  proof (intro allI impI)
    fix p r
    assume "MkdirSync p r \<in> set (fs_calls (snd (on_end h opts st now rs w)))"
    with oe wc(2) [where p = p and r = r] fn' have "MkdirSync p r \<in> set (fs_calls w1) \<or> p = path_dirname h f"
      by auto
    with fc k show "MkdirSync p r \<in> set (fs_calls w) \<or> p = path_dirname h f
           \<or> (\<exists>rrd. p = path_join h [cwd h, replace f ''.trx'' [], ''In'', rrd])"
      by auto
  qed
qed

text \<open>
  Claim C9. When the path taken from the option or the environment variable holds the token
  \<^verbatim>\<open>[hash]\<close> a first time after \<open>a\<close> and again later, the file name is the path with the
  first token replaced by the hexadecimal string and everything after it, the later token
  included, unchanged. This is the file name the listener uses for the report: when the
  report is written, the last file-system call writes to exactly this path. It is also the
  file name the listener uses for the attachment directories: removing \<^verbatim>\<open>.trx\<close> from it
  leaves the later token in place, every accumulated test that is not skipped and has
  attachments gets a \<^verbatim>\<open>mkdirSync\<close> of a directory joined from the working directory, this
  file name without its first \<^verbatim>\<open>.trx\<close>, \<^verbatim>\<open>In\<close> and a relative results directory, and the
  listener creates no directory but these and the parent directory of the file name.
\<close>

theorem hash_replaced_once:
  assumes "or_str (output_opt ro) (MOCHA_REPORTER_FILE h) = Some (a @ ''[hash]'' @ b @ ''[hash]'' @ c)"
    and "\<forall>a' b'. a @ ''[hash]'' @ b @ ''[hash]'' @ c = a' @ ''[hash]'' @ b' \<longrightarrow> length a \<le> length a'"
  shows "getFilename (rnd h) (MOCHA_REPORTER_FILE h) ro
           = Some (a @ toString_hex (randomBytes (rnd h) 16) @ b @ ''[hash]'' @ c)
         \<and> fst (collect_results h (Some ro) ts run0 w)
           = Some (a @ toString_hex (randomBytes (rnd h) 16) @ b @ ''[hash]'' @ c)
         \<and> (stats_start st = Some s \<and> stats_end st = Some e
              \<and> (\<forall>calls. fs_throws h calls
                     (MkdirSync (path_dirname h (a @ toString_hex (randomBytes (rnd h) 16) @ b @ ''[hash]'' @ c)) True)
                     = None)
              \<and> (\<forall>calls x. fs_throws h calls
                     (WriteFileSync (a @ toString_hex (randomBytes (rnd h) 16) @ b @ ''[hash]'' @ c) x) = None)
            \<longrightarrow> (\<exists>x. last (fs_calls (snd (on_end h (Some ro) st now rs w')))
                        = WriteFileSync (a @ toString_hex (randomBytes (rnd h) 16) @ b @ ''[hash]'' @ c) x))
         \<and> (replace (a @ toString_hex (randomBytes (rnd h) 16) @ b @ ''[hash]'' @ c) ''.trx'' []
               = replace (a @ toString_hex (randomBytes (rnd h) 16) @ b) ''.trx'' [] @ ''[hash]'' @ c
             \<or> replace (a @ toString_hex (randomBytes (rnd h) 16) @ b @ ''[hash]'' @ c) ''.trx'' []
               = a @ toString_hex (randomBytes (rnd h) 16) @ b @ ''[hash]'' @ replace c ''.trx'' [])
         \<and> (stats_start st = Some s \<and> stats_end st = Some e
            \<longrightarrow> (\<forall>t \<in> set (map (objs rs) (tests rs)).
                    \<not> excluded ro t \<and> (\<exists>as. attachments t = Some as \<and> as \<noteq> []) \<longrightarrow>
                    (\<exists>rrd. MkdirSync
                             (path_join h [cwd h,
                                replace (a @ toString_hex (randomBytes (rnd h) 16) @ b @ ''[hash]'' @ c) ''.trx'' [],
                                ''In'', rrd]) True
                           \<in> set (fs_calls (snd (on_end h (Some ro) st now rs w')))))
              \<and> (\<forall>p r. MkdirSync p r \<in> set (fs_calls (snd (on_end h (Some ro) st now rs w'))) \<longrightarrow>
                    MkdirSync p r \<in> set (fs_calls w')
                    \<or> p = path_dirname h (a @ toString_hex (randomBytes (rnd h) 16) @ b @ ''[hash]'' @ c)
                    \<or> (\<exists>rrd. p = path_join h [cwd h,
                                replace (a @ toString_hex (randomBytes (rnd h) 16) @ b @ ''[hash]'' @ c) ''.trx'' [],
                                ''In'', rrd])))"
proof -
  let ?hex = "toString_hex (randomBytes (rnd h) 16)"
  let ?p = "a @ ''[hash]'' @ b @ ''[hash]'' @ c"
  let ?q = "a @ ?hex @ b @ ''[hash]'' @ c"
  have "replace ?p ''[hash]'' ?hex = ?q"
    using assms(2) replace_first [of a "''[hash]''" "b @ ''[hash]'' @ c"] by simp
  moreover have "\<exists>a' b'. ?p = a' @ ''[hash]'' @ b'" by blast
  moreover have "?p \<noteq> []" by simp
  ultimately have g: "getFilename (rnd h) (MOCHA_REPORTER_FILE h) ro = Some ?q"
    using getFilename_truthy [OF assms(1), of "rnd h"] by simp
  then have g': "getFilename (rnd h) (MOCHA_REPORTER_FILE h) (reporterOptions_or_empty (Some ro)) = Some ?q"
    by (simp add: reporterOptions_or_empty_def)
  have q: "?q \<noteq> []" by simp
  have 2: "fst (collect_results h (Some ro) ts run0 w) = Some ?q"
    using g' by (simp add: collect_results_filename)
  have 3: "\<exists>x. last (fs_calls (snd (on_end h (Some ro) st now rs w'))) = WriteFileSync ?q x"
    if "stats_start st = Some s \<and> stats_end st = Some e
              \<and> (\<forall>calls. fs_throws h calls (MkdirSync (path_dirname h ?q) True) = None)
              \<and> (\<forall>calls x. fs_throws h calls (WriteFileSync ?q x) = None)"
    using that on_end_writes [of st s e h "Some ro" ?q now rs w'] g' by simp
  have 4: "replace ?q ''.trx'' [] = replace (a @ ?hex @ b) ''.trx'' [] @ ''[hash]'' @ c
           \<or> replace ?q ''.trx'' [] = a @ ?hex @ b @ ''[hash]'' @ replace c ''.trx'' []"
    using replace_around_token [of "''.trx''" "''[hash]''" "a @ ?hex @ b" c "[]"] by simp
  have 5: "(\<forall>t \<in> set (map (objs rs) (tests rs)).
                    \<not> excluded ro t \<and> (\<exists>as. attachments t = Some as \<and> as \<noteq> []) \<longrightarrow>
                    (\<exists>rrd. MkdirSync (path_join h [cwd h, replace ?q ''.trx'' [], ''In'', rrd]) True
                           \<in> set (fs_calls (snd (on_end h (Some ro) st now rs w')))))
              \<and> (\<forall>p r. MkdirSync p r \<in> set (fs_calls (snd (on_end h (Some ro) st now rs w'))) \<longrightarrow>
                    MkdirSync p r \<in> set (fs_calls w') \<or> p = path_dirname h ?q
                    \<or> (\<exists>rrd. p = path_join h [cwd h, replace ?q ''.trx'' [], ''In'', rrd]))"
    if "stats_start st = Some s \<and> stats_end st = Some e"
  proof -
    from that have s: "stats_start st = Some s" "stats_end st = Some e" by simp_all
    note d = on_end_attachment_dirs [OF s g' q, where rs = rs and now = now and w = w']
    from d(1) d(2) show ?thesis
      by (simp add: reporterOptions_or_empty_def)
  qed
  from g 2 3 4 5 show ?thesis by blast
qed

lemma sample_token_path:
  "replace ''out/abababababababababababababababab/r-[hash].trx'' ''.trx'' []
     = ''out/abababababababababababababababab/r-[hash]''"
  by (simp add: replace_def)

text \<open>
  The output \<^verbatim>\<open>out/[hash]/r-[hash].trx\<close>: the second token stays in the written path and in
  the attachment directory of the sample test \<^verbatim>\<open>B\<close>.
\<close>

theorem hash_replaced_once_witness:
  "getFilename (rnd sample_host) (MOCHA_REPORTER_FILE sample_host)
       (sample_options (Some ''out/[hash]/r-[hash].trx'') JUndefined JUndefined)
     = Some ''out/abababababababababababababababab/r-[hash].trx''
   \<and> (\<exists>x. last (fs_calls (snd (on_end sample_host
                 (Some (sample_options (Some ''out/[hash]/r-[hash].trx'') JUndefined JUndefined))
                 sample_stats sample_time sample_state sample_world)))
         = WriteFileSync ''out/abababababababababababababababab/r-[hash].trx'' x)
   \<and> (\<exists>rrd. MkdirSync (posix_join [''/work'', ''out/abababababababababababababababab/r-[hash]'', ''In'', rrd]) True
          \<in> set (fs_calls (snd (on_end sample_host
                 (Some (sample_options (Some ''out/[hash]/r-[hash].trx'') JUndefined JUndefined))
                 sample_stats sample_time sample_state sample_world))))"
proof -
  have m: "\<forall>a' b'. ''out/'' @ ''[hash]'' @ ''/r-'' @ ''[hash]'' @ ''.trx'' = a' @ ''[hash]'' @ b'
             \<longrightarrow> length ''out/'' \<le> length a'"
    using first_occurrence [of "''out/''" "''[hash]''" "''/r-'' @ ''[hash]'' @ ''.trx''"] by simp
  have hx: "toString_hex (randomBytes (rnd sample_host) 16) = ''abababababababababababababababab''"
    by (simp add: toString_hex_def randomBytes_def hex_byte_def digit_char_def upt_rec [of _ "numeral _"]
          sample_host_def)
  have B: "sample_test ''B'' (Some ''failed'') False (Some [''shots/a.png'', ''shots/b.png''])
             \<in> set (map (objs sample_state) (tests sample_state))"
    by (simp add: sample_state_def)
  have nB: "\<not> excluded (sample_options (Some ''out/[hash]/r-[hash].trx'') JUndefined JUndefined)
              (sample_test ''B'' (Some ''failed'') False (Some [''shots/a.png'', ''shots/b.png'']))"
    by (simp add: sample_test_def)
  have aB: "\<exists>as. attachments (sample_test ''B'' (Some ''failed'') False (Some [''shots/a.png'', ''shots/b.png'']))
              = Some as \<and> as \<noteq> []"
    by (simp add: sample_test_def)
  note t = hash_replaced_once [where h = sample_host
      and ro = "sample_options (Some ''out/[hash]/r-[hash].trx'') JUndefined JUndefined"
      and a = "''out/''" and b = "''/r-''" and c = "''.trx''"
      and st = sample_stats and s = sample_time and e = sample_time and now = sample_time
      and rs = sample_state and w' = sample_world, OF _ m, unfolded hx]
  have o: "or_str (output_opt (sample_options (Some ''out/[hash]/r-[hash].trx'') JUndefined JUndefined))
             (MOCHA_REPORTER_FILE sample_host) = Some (''out/'' @ ''[hash]'' @ ''/r-'' @ ''[hash]'' @ ''.trx'')"
    by (simp add: sample_options_def or_str_def)
  from t [OF o] have
    1: "getFilename (rnd sample_host) (MOCHA_REPORTER_FILE sample_host)
          (sample_options (Some ''out/[hash]/r-[hash].trx'') JUndefined JUndefined)
        = Some ''out/abababababababababababababababab/r-[hash].trx''"
    and 2: "\<exists>x. last (fs_calls (snd (on_end sample_host
                 (Some (sample_options (Some ''out/[hash]/r-[hash].trx'') JUndefined JUndefined))
                 sample_stats sample_time sample_state sample_world)))
         = WriteFileSync ''out/abababababababababababababababab/r-[hash].trx'' x"
    and 3: "\<forall>t \<in> set (map (objs sample_state) (tests sample_state)).
                    \<not> excluded (sample_options (Some ''out/[hash]/r-[hash].trx'') JUndefined JUndefined) t
                    \<and> (\<exists>as. attachments t = Some as \<and> as \<noteq> []) \<longrightarrow>
                    (\<exists>rrd. MkdirSync
                             (posix_join [''/work'', ''out/abababababababababababababababab/r-[hash]'',
                                ''In'', rrd]) True
                           \<in> set (fs_calls (snd (on_end sample_host
                 (Some (sample_options (Some ''out/[hash]/r-[hash].trx'') JUndefined JUndefined))
                 sample_stats sample_time sample_state sample_world))))"
    using sample_token_path
    by (simp_all add: sample_host_fields sample_stats_fields)
  from 3 B nB aB have "\<exists>rrd. MkdirSync
                             (posix_join [''/work'', ''out/abababababababababababababababab/r-[hash]'',
                                ''In'', rrd]) True
                           \<in> set (fs_calls (snd (on_end sample_host
                 (Some (sample_options (Some ''out/[hash]/r-[hash].trx'') JUndefined JUndefined))
                 sample_stats sample_time sample_state sample_world)))"
    by blast
  with 1 2 show ?thesis by blast
qed

section \<open>The attachment directory\<close>

text \<open>
  What the relocation does for a test that is not skipped and has at least one attachment,
  when the file name is a non-empty string: the entry added to the report is the one from
  \<^verbatim>\<open>testToTrx\<close> with its execution identifier (a generated one if it had none), its relative
  results directory (the identifier if it had none) and its file list extended by a reference
  to the base name of each attachment; the file-system calls made are \<^verbatim>\<open>mkdirSync\<close>,
  recursive, of the attachment directory, then one \<^verbatim>\<open>copyFileSync\<close> for each attachment to its
  base name in that directory. The attachment directory joins the working directory, the
  file name with its first \<^verbatim>\<open>.trx\<close> removed, \<^verbatim>\<open>In\<close> and the relative results directory.
\<close>

lemma attachments_relocated:
  assumes "report_test h ro (Some f) t (run0, n, w) = (run1, n1, w1)"
    and "f \<noteq> []" and "attachments t = Some as" and "as \<noteq> []" and "\<not> excluded ro t"
  shows "(let r = testToTrx h t (computerName h) (cwd h) ro;
              eid = execution_id h r (uuid_calls w);
              rrd = results_directory h r (uuid_calls w);
              dir = attachment_dir h f rrd
          in results run1 = results run0
               @ [r\<lparr>executionId := Some eid, relativeResultsDirectory := Some rrd,
                     resultFiles := Some ((case resultFiles r of None \<Rightarrow> [] | Some fs \<Rightarrow> fs)
                                            @ map (\<lambda>a. \<lparr>path = base_name h a\<rparr>) as)\<rparr>]
             \<and> fs_calls w1 = fs_calls w
                 @ MkdirSync dir True # map (\<lambda>a. CopyFileSync a (path_join h [dir, base_name h a])) as)
         \<and> ((\<forall>a' b'. stem @ ''.trx'' = a' @ ''.trx'' @ b' \<longrightarrow> length stem \<le> length a')
              \<longrightarrow> attachment_dir h (stem @ ''.trx'') d = path_join h [cwd h, stem, ''In'', d])"
proof -
  from assms(2-4) have rel: "relocation (Some f) (attachments t) = Some (f, as)" by simp
  note rt = report_test_moved [OF assms(5) rel, of h run0 n w]
  from rt assms(1) have
    run1: "run1 = addResult (fst (move_attachments h f as (testToTrx h t (computerName h) (cwd h) ro) w)) run0"
    and w1: "w1 = snd (move_attachments h f as (testToTrx h t (computerName h) (cwd h) ro) w)"
    by simp_all
  have 1: "(let r = testToTrx h t (computerName h) (cwd h) ro;
              eid = execution_id h r (uuid_calls w);
              rrd = results_directory h r (uuid_calls w);
              dir = attachment_dir h f rrd
          in results run1 = results run0
               @ [r\<lparr>executionId := Some eid, relativeResultsDirectory := Some rrd,
                     resultFiles := Some ((case resultFiles r of None \<Rightarrow> [] | Some fs \<Rightarrow> fs)
                                            @ map (\<lambda>a. \<lparr>path = base_name h a\<rparr>) as)\<rparr>]
             \<and> fs_calls w1 = fs_calls w
                 @ MkdirSync dir True # map (\<lambda>a. CopyFileSync a (path_join h [dir, base_name h a])) as)"
    by (simp add: run1 w1 Let_def addResult_def move_attachments_result move_attachments_calls
          execution_id_def results_directory_def attachment_dir_def)
  have 2: "attachment_dir h (stem @ ''.trx'') d = path_join h [cwd h, stem, ''In'', d]"
    if "\<forall>a' b'. stem @ ''.trx'' = a' @ ''.trx'' @ b' \<longrightarrow> length stem \<le> length a'"
    using that replace_first [of stem "''.trx''" "[]" "[]"] by (simp add: attachment_dir_def)
  from 1 2 show ?thesis by blast
qed

lemma sample_volatile_fields:
  "execution_id sample_host (sample_testToTrx t c d ro) 0 = ''uuid-0''"
  "results_directory sample_host (sample_testToTrx t c d ro) 0 = ''uuid-0''"
  using sample_uuid by (simp_all add: execution_id_def results_directory_def sample_testToTrx_def)

text \<open>The sample test \<^verbatim>\<open>B\<close> with the output \<^verbatim>\<open>results/out.trx\<close>.\<close>

lemma attachments_relocated_sample:
  "(case report_test sample_host no_options (Some ''results/out.trx'') sample_B (sample_run, 0, sample_world) of
      (run1, n1, w1) \<Rightarrow>
        results run1 = [\<lparr>executionId = Some ''uuid-0'', relativeResultsDirectory = Some ''uuid-0'',
                          resultFiles = Some [\<lparr>path = ''a.png''\<rparr>, \<lparr>path = ''b.png''\<rparr>],
                          outcome = ''failed'', rest = ''B''\<rparr>]
        \<and> fs_calls w1 = [MkdirSync ''/work/results/out/In/uuid-0'' True,
                          CopyFileSync ''shots/a.png'' ''/work/results/out/In/uuid-0/a.png'',
                          CopyFileSync ''shots/b.png'' ''/work/results/out/In/uuid-0/b.png''])"
proof -
  let ?c = "report_test sample_host no_options (Some ''results/out.trx'') sample_B (sample_run, 0, sample_world)"
  have c: "?c = (fst ?c, fst (snd ?c), snd (snd ?c))" by simp
  have m: "\<forall>a' b'. ''results/out'' @ ''.trx'' = a' @ ''.trx'' @ b' \<longrightarrow> length ''results/out'' \<le> length a'"
    using first_occurrence [of "''results/out''" "''.trx''" "[]"] by simp
  have w0: "uuid_calls sample_world = 0" "fs_calls sample_world = []" by (simp_all add: sample_world_def)
  from attachments_relocated [OF c, where as = "[''shots/a.png'', ''shots/b.png'']"
      and stem = "''results/out''" and d = "''uuid-0''"] m
  show ?thesis
    using sample_base_names sample_join_dir sample_join_a sample_join_b
    by (simp add: split_beta Let_def sample_B_def sample_test_def no_options_def w0 sample_host_fields
          sample_volatile_fields sample_run_fields)
       (simp add: sample_testToTrx_def)
qed

lemma sample_join_xml:
  "posix_join [''/work'', ''results/out.xml'', ''In'', ''uuid-0''] = ''/work/results/out.xml/In/uuid-0''"
  by (simp add: posix_eval)

lemma sample_join_xml_a:
  "posix_join [''/work/results/out.xml/In/uuid-0'', ''a.png''] = ''/work/results/out.xml/In/uuid-0/a.png''"
  by (simp add: posix_eval)

lemma sample_join_xml_b:
  "posix_join [''/work/results/out.xml/In/uuid-0'', ''b.png''] = ''/work/results/out.xml/In/uuid-0/b.png''"
  by (simp add: posix_eval)

lemma sample_collect_xml:
  "collect_results (sample_host\<lparr>fs_throws := dir_aware\<rparr>)
     (Some (sample_options (Some ''results/out.xml'') JUndefined JUndefined)) sample_tests
     sample_run (sample_world\<lparr>runner_testResults := x\<rparr>) =
      (Some ''results/out.xml'',
       sample_run\<lparr>results := [\<lparr>executionId = None, relativeResultsDirectory = None, resultFiles = None,
                                  outcome = ''passed'', rest = ''A''\<rparr>,
                                \<lparr>executionId = None, relativeResultsDirectory = None, resultFiles = None,
                                  outcome = ''pending'', rest = ''P''\<rparr>,
                                \<lparr>executionId = Some ''uuid-0'', relativeResultsDirectory = Some ''uuid-0'',
                                  resultFiles = Some [\<lparr>path = ''a.png''\<rparr>, \<lparr>path = ''b.png''\<rparr>],
                                  outcome = ''failed'', rest = ''B''\<rparr>]\<rparr>,
       0,
       \<lparr>fs_calls = [MkdirSync ''/work/results/out.xml/In/uuid-0'' True,
                          CopyFileSync ''shots/a.png'' ''/work/results/out.xml/In/uuid-0/a.png'',
                          CopyFileSync ''shots/b.png'' ''/work/results/out.xml/In/uuid-0/b.png''],
           stdout = [mkdir_line ''/work/results/out.xml/In/uuid-0'',
                     copy_line ''a.png'' ''/work/results/out.xml/In/uuid-0'',
                     copy_line ''b.png'' ''/work/results/out.xml/In/uuid-0''],
           console_warn = [], uuid_calls = 1, toXml_calls = 0, runner_testResults = x\<rparr>)"
proof -
  let ?h = "sample_host\<lparr>fs_throws := dir_aware\<rparr>"
  have b: "base_name ?h ''shots/a.png'' = ''a.png''" "base_name ?h ''shots/b.png'' = ''b.png''"
    using sample_base_names by (simp_all add: base_name_def)
  have x: "replace ''results/out.xml'' ''.trx'' [] = ''results/out.xml''"
    by (simp add: replace_def)
  have m: "move_attachments ?h ''results/out.xml'' [''shots/a.png'', ''shots/b.png'']
     \<lparr>executionId = None, relativeResultsDirectory = None, resultFiles = None,
                                  outcome = ''failed'', rest = ''B''\<rparr> (sample_world\<lparr>runner_testResults := x\<rparr>)
     = (\<lparr>executionId = Some ''uuid-0'', relativeResultsDirectory = Some ''uuid-0'',
                                  resultFiles = Some [\<lparr>path = ''a.png''\<rparr>, \<lparr>path = ''b.png''\<rparr>],
                                  outcome = ''failed'', rest = ''B''\<rparr>,
       \<lparr>fs_calls = [MkdirSync ''/work/results/out.xml/In/uuid-0'' True,
                          CopyFileSync ''shots/a.png'' ''/work/results/out.xml/In/uuid-0/a.png'',
                          CopyFileSync ''shots/b.png'' ''/work/results/out.xml/In/uuid-0/b.png''],
           stdout = [mkdir_line ''/work/results/out.xml/In/uuid-0'',
                     copy_line ''a.png'' ''/work/results/out.xml/In/uuid-0'',
                     copy_line ''b.png'' ''/work/results/out.xml/In/uuid-0''],
           console_warn = [], uuid_calls = 1, toXml_calls = 0, runner_testResults = x\<rparr>)"
    using b sample_uuid sample_join_xml sample_join_xml_a sample_join_xml_b
    by (simp add: move_attachments_eq copy_attachment_eq split_beta x sample_world_def
          sample_host_fields Let_def)
  show ?thesis
    unfolding collect_results_def
    using m
    by (simp add: reporterOptions_or_empty_def sample_tests_def report_test_def strict_eq_true_def
        sample_test_def sample_options_def sample_testToTrx_def warn_excluded_def addResult_def
        sample_host_fields Let_def getFilename_def or_str_def indexOf_def sample_world_def
        sample_run_fields)
qed

lemma sample_report_path: "posix_join [''/work'', ''results/out.xml''] = ''/work/results/out.xml''"
  by (simp add: posix_eval)

lemma sample_dirname_xml: "posix_dirname ''results/out.xml'' = ''results''"
  by (simp add: posix_eval)

text \<open>
  Claim C2: the attachment directory is the output path without its extension, then
  \<^verbatim>\<open>In\<close>, then the relative results directory. The code fails it for an output path whose
  extension is not \<^verbatim>\<open>.trx\<close>. For the output \<^verbatim>\<open>results/out.xml\<close> and the sample tests, the
  listener creates \<^verbatim>\<open>/work/results/out.xml/In/uuid-0\<close>, a directory below the path of the
  report itself, and copies the attachments there; on a file system that knows about
  directories the report then cannot be written. The directory of the claim,
  \<^verbatim>\<open>/work/results/out/In/uuid-0\<close>, is never created.
\<close>

theorem attachment_dir_at_report_path:
  "getFilename (rnd sample_host) (MOCHA_REPORTER_FILE sample_host)
       (sample_options (Some ''results/out.xml'') JUndefined JUndefined) = Some ''results/out.xml''
   \<and> fs_calls (snd (on_end (sample_host\<lparr>fs_throws := dir_aware\<rparr>)
            (Some (sample_options (Some ''results/out.xml'') JUndefined JUndefined))
            sample_stats sample_time sample_state sample_world))
       = [MkdirSync ''/work/results/out.xml/In/uuid-0'' True,
          CopyFileSync ''shots/a.png'' ''/work/results/out.xml/In/uuid-0/a.png'',
          CopyFileSync ''shots/b.png'' ''/work/results/out.xml/In/uuid-0/b.png'',
          MkdirSync ''results'' True,
          WriteFileSync ''results/out.xml''
            ''<TestRun name=alice@build01 2024-03-09 07:05:42><A:passed><P:pending><B:failed>'']
   \<and> fst (on_end (sample_host\<lparr>fs_throws := dir_aware\<rparr>)
            (Some (sample_options (Some ''results/out.xml'') JUndefined JUndefined))
            sample_stats sample_time sample_state sample_world) = Some (FsError ''Error: EISDIR'')
   \<and> path_join sample_host [cwd sample_host, spec_without_extension ''results/out.xml'', ''In'', ''uuid-0'']
       = ''/work/results/out/In/uuid-0''
   \<and> MkdirSync (path_join sample_host
                   [cwd sample_host, spec_without_extension ''results/out.xml'', ''In'', ''uuid-0'']) True
       \<notin> set (fs_calls (snd (on_end (sample_host\<lparr>fs_throws := dir_aware\<rparr>)
            (Some (sample_options (Some ''results/out.xml'') JUndefined JUndefined))
            sample_stats sample_time sample_state sample_world)))"
proof -
  let ?h = "sample_host\<lparr>fs_throws := dir_aware\<rparr>"
  let ?o = "Some (sample_options (Some ''results/out.xml'') JUndefined JUndefined)"
  have r: "new_TestRun ?h (toISOString sample_time) (toISOString sample_time) (toISOString sample_time) = sample_run"
    by (simp add: sample_run_def new_TestRun_def testRunName_def)
  have g: "getFilename (rnd sample_host) (MOCHA_REPORTER_FILE sample_host)
       (sample_options (Some ''results/out.xml'') JUndefined JUndefined) = Some ''results/out.xml''"
    by (simp add: getFilename_def sample_options_def or_str_def indexOf_def sample_host_fields)
  have oe: "on_end ?h ?o sample_stats sample_time sample_state sample_world
      = write_report ?h (Some ''results/out.xml'')
          (sample_run\<lparr>results := [\<lparr>executionId = None, relativeResultsDirectory = None, resultFiles = None,
                                  outcome = ''passed'', rest = ''A''\<rparr>,
                                \<lparr>executionId = None, relativeResultsDirectory = None, resultFiles = None,
                                  outcome = ''pending'', rest = ''P''\<rparr>,
                                \<lparr>executionId = Some ''uuid-0'', relativeResultsDirectory = Some ''uuid-0'',
                                  resultFiles = Some [\<lparr>path = ''a.png''\<rparr>, \<lparr>path = ''b.png''\<rparr>],
                                  outcome = ''failed'', rest = ''B''\<rparr>]\<rparr>)
          \<lparr>fs_calls = [MkdirSync ''/work/results/out.xml/In/uuid-0'' True,
                          CopyFileSync ''shots/a.png'' ''/work/results/out.xml/In/uuid-0/a.png'',
                          CopyFileSync ''shots/b.png'' ''/work/results/out.xml/In/uuid-0/b.png''],
           stdout = [mkdir_line ''/work/results/out.xml/In/uuid-0'',
                     copy_line ''a.png'' ''/work/results/out.xml/In/uuid-0'',
                     copy_line ''b.png'' ''/work/results/out.xml/In/uuid-0''],
           console_warn = [], uuid_calls = 1, toXml_calls = 0,
           runner_testResults = Some (sample_stats, sample_tests)\<rparr>"
    by (rule on_end_eq [where h = ?h and rs = sample_state and now = sample_time and w = sample_world
          and opts = ?o, OF sample_stats_fields, unfolded sample_accumulated r,
          OF sample_collect_xml])
  have 1: "fs_calls (snd (on_end ?h ?o sample_stats sample_time sample_state sample_world))
       = [MkdirSync ''/work/results/out.xml/In/uuid-0'' True,
          CopyFileSync ''shots/a.png'' ''/work/results/out.xml/In/uuid-0/a.png'',
          CopyFileSync ''shots/b.png'' ''/work/results/out.xml/In/uuid-0/b.png'',
          MkdirSync ''results'' True,
          WriteFileSync ''results/out.xml''
            ''<TestRun name=alice@build01 2024-03-09 07:05:42><A:passed><P:pending><B:failed>'']"
    and 2: "fst (on_end ?h ?o sample_stats sample_time sample_state sample_world) = Some (FsError ''Error: EISDIR'')"
    unfolding oe using sample_dirname_xml sample_report_path
    by (simp_all add: write_report_def fs_do_def sample_host_fields sample_xml Let_def)
  have s: "spec_without_extension ''results/out.xml'' = ''results/out''"
    by (simp add: spec_without_extension_def)
  have j: "path_join sample_host [cwd sample_host, spec_without_extension ''results/out.xml'', ''In'', ''uuid-0'']
     = ''/work/results/out/In/uuid-0''"
    using sample_join_dir by (simp add: s sample_host_fields)
  have 3: "MkdirSync (path_join sample_host
                   [cwd sample_host, spec_without_extension ''results/out.xml'', ''In'', ''uuid-0'']) True
       \<notin> set (fs_calls (snd (on_end ?h ?o sample_stats sample_time sample_state sample_world)))"
    unfolding 1 j by simp
  from g 1 2 j 3 show ?thesis by blast
qed

section \<open>Tests not executed because of a failed hook\<close>

lemma mark_not_executed_objs:
  "objs (mark_not_executed fh t st) = (objs st)(t := not_executed fh (objs st t))"
  by (auto simp: mark_not_executed_def not_executed_def not_executed_message_def Let_def)

lemma mark_not_executed_tests:
  "set (tests (mark_not_executed fh t st)) =
     set (tests st) \<union> (if pending (objs st t) \<or> \<not> truthy_str (state (objs st t)) then {t} else {})"
  by (auto simp: mark_not_executed_def set_add_def Let_def)

lemma mark_not_executed_failedHook: "failedHook (mark_not_executed fh t st) = failedHook st"
  by (simp add: mark_not_executed_def Let_def)

lemma not_executed_idem: "not_executed fh (not_executed fh x) = not_executed fh x"
  by (simp add: not_executed_def)

lemma fold_mark_objs:
  "objs (fold (mark_not_executed fh) ts st) t
     = (if t \<in> set ts then not_executed fh (objs st t) else objs st t)"
proof (induction ts arbitrary: st)
  case Nil
  then show ?case by simp
next
  case (Cons a ts)
  show ?case
    by (simp add: Cons.IH mark_not_executed_objs not_executed_idem)
qed

lemma fold_mark_failedHook: "failedHook (fold (mark_not_executed fh) ts st) = failedHook st"
  by (induction ts arbitrary: st) (simp_all add: mark_not_executed_failedHook)

lemma fold_mark_tests:
  "set (tests (fold (mark_not_executed fh) ts st)) =
     set (tests st) \<union> {t \<in> set ts. pending (objs st t) \<or> \<not> truthy_str (state (objs st t))}"
proof (induction ts arbitrary: st)
  case Nil
  then show ?case by simp
next
  case (Cons a ts)
  have k: "(pending (objs (mark_not_executed fh a st) t)
             \<or> \<not> truthy_str (state (objs (mark_not_executed fh a st) t)))
           = (if t = a then pending (objs st a)
              else pending (objs st t) \<or> \<not> truthy_str (state (objs st t)))" for t
    by (auto simp: mark_not_executed_objs not_executed_def)
  show ?case
    unfolding fold_simps Cons.IH mark_not_executed_tests k
    by (auto split: if_splits)
qed

text \<open>
  Claim C1, as the code has it. When the suite that ends is the parent of the pending failed
  hook, the marker is cleared, and for every test nested in the suite: if the test is pending
  or has no state, it gets the error whose message names the hook's title and the full title
  of the hook's suite and whose stack is that of the hook's error, it is in the set
  afterwards, and its state becomes \<^verbatim>\<open>failed\<close> if it had none and is kept if it had one; if
  the test is not pending and has a state, the test object and its membership in the set are
  unchanged. Tests outside the suite are unchanged.
\<close>

theorem failed_hook_marks_tests:
  assumes "failedHook st = Some fh" and "sid (parent fh) = sid suite"
  shows "failedHook (on_suite_end suite st) = None
         \<and> (\<forall>t \<in> set (eachTest suite).
               (pending (objs st t) \<or> \<not> truthy_str (state (objs st t)) \<longrightarrow>
                  objs (on_suite_end suite st) t
                    = (objs st t)\<lparr>err := Some \<lparr>message = ''Not executed due to '' @ rtitle fh @ '' on ''
                                                      @ dquote @ fullTitle (parent fh) @ dquote,
                                                stack = stack (rerr fh)\<rparr>,
                                   state := (if truthy_str (state (objs st t)) then state (objs st t)
                                             else Some ''failed'')\<rparr>
                  \<and> t \<in> set (tests (on_suite_end suite st)))
               \<and> (\<not> pending (objs st t) \<and> truthy_str (state (objs st t)) \<longrightarrow>
                    objs (on_suite_end suite st) t = objs st t
                    \<and> (t \<in> set (tests (on_suite_end suite st)) \<longleftrightarrow> t \<in> set (tests st))))
         \<and> (\<forall>t. t \<notin> set (eachTest suite) \<longrightarrow>
               objs (on_suite_end suite st) t = objs st t
               \<and> (t \<in> set (tests (on_suite_end suite st)) \<longleftrightarrow> t \<in> set (tests st)))"
proof -
  have e: "on_suite_end suite st = (fold (mark_not_executed fh) (eachTest suite) st)\<lparr>failedHook := None\<rparr>"
    using assms by (simp add: on_suite_end_def)
  show ?thesis
    unfolding e
    by (auto simp: fold_mark_objs fold_mark_tests not_executed_def)
qed

text \<open>
  In \<^verbatim>\<open>Suite X\<close> the tests 2 and 3, which had no state, are failed with the synthetic error
  and are in the set; test 1, pending with a state, has the error and keeps its state; test
  0, which passed, is unchanged, and so is a test outside the suite.
\<close>

theorem failed_hook_marks_tests_witness:
  "failedHook (on_suite_end hooked_suite hooked_state) = None
   \<and> state (objs (on_suite_end hooked_suite hooked_state) 2) = Some ''failed''
   \<and> err (objs (on_suite_end hooked_suite hooked_state) 2)
       = Some \<lparr>message = ''Not executed due to before each hook on '' @ dquote @ ''Suite X'' @ dquote,
               stack = ''Error: boom at hook.js:3''\<rparr>
   \<and> state (objs (on_suite_end hooked_suite hooked_state) 3) = Some ''failed''
   \<and> state (objs (on_suite_end hooked_suite hooked_state) 1) = Some ''pending''
   \<and> err (objs (on_suite_end hooked_suite hooked_state) 1)
       = Some \<lparr>message = ''Not executed due to before each hook on '' @ dquote @ ''Suite X'' @ dquote,
               stack = ''Error: boom at hook.js:3''\<rparr>
   \<and> 2 \<in> set (tests (on_suite_end hooked_suite hooked_state))
   \<and> 3 \<in> set (tests (on_suite_end hooked_suite hooked_state))
   \<and> objs (on_suite_end hooked_suite hooked_state) 0 = objs hooked_state 0
   \<and> objs (on_suite_end hooked_suite hooked_state) 4 = objs hooked_state 4
   \<and> 4 \<notin> set (tests (on_suite_end hooked_suite hooked_state))"
proof -
  have h: "failedHook hooked_state = Some hooked_hook" by (simp add: hooked_state_def)
  have p: "sid (parent hooked_hook) = sid hooked_suite" by (simp add: hooked_hook_def)
  have t: "eachTest hooked_suite = [0, 1, 2, 3]" by (simp add: hooked_suite_def)
  from failed_hook_marks_tests [OF h p] show ?thesis
    unfolding t
    by (simp add: hooked_state_def sample_test_def hooked_hook_def hooked_suite_def)
qed

text \<open>
  Claim C1 as stated fails for a pending test that already has a state. Test 1 of
  \<^verbatim>\<open>Suite X\<close> is pending, with the state \<^verbatim>\<open>pending\<close>; when the suite ends under the failed
  hook, its state is still \<^verbatim>\<open>pending\<close>, not \<^verbatim>\<open>failed\<close>, and yet the test object has changed.
\<close>

theorem pending_test_keeps_state:
  "failedHook hooked_state = Some hooked_hook
   \<and> sid (parent hooked_hook) = sid hooked_suite
   \<and> 1 \<in> set (eachTest hooked_suite)
   \<and> pending (objs hooked_state 1)
   \<and> state (objs (on_suite_end hooked_suite hooked_state) 1) = Some ''pending''
   \<and> state (objs (on_suite_end hooked_suite hooked_state) 1) \<noteq> Some ''failed''
   \<and> objs (on_suite_end hooked_suite hooked_state) 1 \<noteq> objs hooked_state 1"
  by (simp add: on_suite_end_def hooked_state_def hooked_hook_def hooked_suite_def mark_not_executed_def
        sample_test_def set_add_def Let_def)

end
